theory Spec2Isabelle
  imports Complex_Main "HOL-Library.Word"
begin

chapter \<open>Hardware bridge firmware: I2S transport codec, Phi sensor, hybrid analog/DSP node\<close>

text \<open>
  A shallow embedding of the three hardware modules under \<^verbatim>\<open>src/hardware\<close>:
  \<^verbatim>\<open>i2s_bridge.cpp\<close>, \<^verbatim>\<open>phi_sensor.cpp\<close> and \<^verbatim>\<open>hybrid_node.cpp\<close>.
  Each module keeps its state in file-level statics; here every module has a record of
  those statics, and every function takes the record and returns it updated.
  A pointer argument is an \<open>option\<close> (\<open>None\<close> is \<^verbatim>\<open>NULL\<close>); a \<^verbatim>\<open>bool\<close> result
  is paired with the new state.
\<close>

section \<open>Transport codec (\<^verbatim>\<open>i2s_bridge.cpp\<close>)\<close>

text \<open>
  The codec moves \<^verbatim>\<open>float\<close> values through a \<^verbatim>\<open>union { float f; int32_t i; }\<close>
  and never computes with them, so in this module a \<^verbatim>\<open>float\<close> is its 32-bit object
  representation. Storing through \<open>f\<close> and loading through \<open>i\<close> reads the same 32 bits;
  an \<^verbatim>\<open>int32_t\<close> is a 32-bit word as well (\<open>sint\<close> reads it in two's complement).
\<close>

type_synonym float_bits = "32 word"
type_synonym int32_t = "32 word"
type_synonym uint32_t = "32 word"

definition I2S_CHANNELS :: nat where
  "I2S_CHANNELS = 8"

definition I2S_BUFFER_SIZE :: nat where
  "I2S_BUFFER_SIZE = 512"

record ConsciousnessMetrics =
  phi_phase :: float_bits
  phi_depth :: float_bits
  coherence :: float_bits
  criticality :: float_bits
  ici :: float_bits
  timestamp_us :: uint32_t
  sequence :: uint32_t

text \<open>The two directions of the union.\<close>

definition union_f_to_i :: "float_bits \<Rightarrow> int32_t" where
  "union_f_to_i f = f"

definition union_i_to_f :: "int32_t \<Rightarrow> float_bits" where
  "union_i_to_f i = i"

text \<open>
  One iteration of the interleaving loop of \<^verbatim>\<open>encode_metrics_to_frame\<close>: sample \<open>i\<close> of
  the frame gets the four slots 4..7.
\<close>

definition encode_sample ::
  "int32_t \<Rightarrow> int32_t \<Rightarrow> int32_t \<Rightarrow> int32_t \<Rightarrow> nat \<Rightarrow> int32_t list \<Rightarrow> int32_t list" where
  "encode_sample p d c e i frame =
     frame[i * I2S_CHANNELS + 4 := p,
           i * I2S_CHANNELS + 5 := d,
           i * I2S_CHANNELS + 6 := c,
           i * I2S_CHANNELS + 7 := e]"

definition encode_metrics_to_frame ::
  "int32_t list \<Rightarrow> ConsciousnessMetrics \<Rightarrow> int32_t list" where
  "encode_metrics_to_frame frame metrics =
     (let phi_phase_i = union_f_to_i (phi_phase metrics);
          phi_depth_i = union_f_to_i (phi_depth metrics);
          coherence_i = union_f_to_i (coherence metrics);
          extra_i = union_f_to_i
            (if sequence metrics mod 2 = 0 then criticality metrics else ici metrics)
      in fold (encode_sample phi_phase_i phi_depth_i coherence_i extra_i)
           [0 ..< I2S_BUFFER_SIZE] frame)"

text \<open>
  \<^verbatim>\<open>decode_metrics_from_frame\<close> writes into the caller's record: the fields it does
  not assign keep the caller's values, and the parity test reads the caller's \<open>sequence\<close>.
\<close>

definition decode_metrics_from_frame ::
  "int32_t list \<Rightarrow> ConsciousnessMetrics \<Rightarrow> ConsciousnessMetrics" where
  "decode_metrics_from_frame frame metrics =
     (let m = metrics\<lparr>phi_phase := union_i_to_f (frame ! 4),
                      phi_depth := union_i_to_f (frame ! 5),
                      coherence := union_i_to_f (frame ! 6)\<rparr>;
          extra_f = union_i_to_f (frame ! 7)
      in if sequence metrics mod 2 = 0
         then m\<lparr>criticality := extra_f\<rparr>
         else m\<lparr>ici := extra_f\<rparr>)"

text \<open>
  The record that \<^verbatim>\<open>i2s_bridge_self_test\<close> transmits in round \<open>i\<close>:
  3.14159f, 0.5f, 0.95f, 1.0f and 100.0f as bit patterns, and \<open>sequence = i\<close>.
\<close>

definition test_metrics :: "uint32_t \<Rightarrow> ConsciousnessMetrics" where
  "test_metrics i =
     \<lparr>phi_phase = 0x40490FD0, phi_depth = 0x3F000000, coherence = 0x3F733333,
      criticality = 0x3F800000, ici = 0x42C80000, timestamp_us = 0, sequence = i\<rparr>"

text \<open>
  A receiver's record before the decode: nothing in it is meaningful yet except the
  sequence number \<open>i\<close> that it expects.
\<close>

definition received_metrics :: "uint32_t \<Rightarrow> ConsciousnessMetrics" where
  "received_metrics i =
     \<lparr>phi_phase = 0, phi_depth = 0, coherence = 0, criticality = 0, ici = 0,
      timestamp_us = 7, sequence = i\<rparr>"

section \<open>Build targets and hardware readings\<close>

text \<open>
  The sources select code with \<^verbatim>\<open>#ifdef TEENSY\<close> / \<^verbatim>\<open>#elif defined(RASPBERRY_PI)\<close> /
  \<^verbatim>\<open>#else\<close>. The build target is a parameter of the model, and so is everything the
  code reads from the hardware: \<^verbatim>\<open>analogRead\<close>, \<^verbatim>\<open>micros\<close> and \<^verbatim>\<open>time\<close>.
\<close>

datatype platform = TEENSY | RASPBERRY_PI | GENERIC

section \<open>Sensor acquisition (\<^verbatim>\<open>phi_sensor.cpp\<close>)\<close>

text \<open>
  From here on a \<^verbatim>\<open>float\<close> that the code computes with is a real number: rounding,
  infinities and NaN are not represented, and a division is only meant where the source's
  divisor is not zero. The one exception is the preamp gain of the hybrid node, which
  the caller hands in and the code tests with comparisons: there NaN is a value
  (\<open>c_float\<close> below).
\<close>

type_synonym uint16_t = "16 word"
type_synonym uint64_t = "64 word"

definition PHI_SENSOR_CHANNELS :: nat where
  "PHI_SENSOR_CHANNELS = 4"

definition PHI_SENSOR_SAMPLE_RATE :: nat where
  "PHI_SENSOR_SAMPLE_RATE = 30"

definition PHI_SENSOR_ADC_MAX :: nat where
  "PHI_SENSOR_ADC_MAX = 4095"

definition PHI_SENSOR_VOLTAGE_MAX :: real where
  "PHI_SENSOR_VOLTAGE_MAX = 33 / 10"

definition FILTER_ALPHA :: real where
  "FILTER_ALPHA = 3 / 10"

record PhiSensorConfig =
  adc_pins :: "nat list"
  sample_rate_hz :: uint32_t
  enable_filtering :: bool
  filter_cutoff_hz :: real
  enable_calibration :: bool

record PhiSensorCalibration =
  offset :: "real list"
  scale :: "real list"
  voltage_min :: "real list"
  voltage_max :: "real list"
  calibration_samples :: uint32_t
  residual_error :: real

record PhiSensorData =
  raw_adc :: "uint16_t list"
  voltage :: "real list"
  normalized :: "real list"
  timestamp_us :: uint32_t
  sample_number :: uint32_t

record PhiSensorStatistics =
  total_samples :: uint64_t
  sample_rate_actual :: uint32_t
  sample_rate_jitter :: real
  dropped_samples :: uint32_t
  signal_quality :: "real list"
  calibrated :: bool

text \<open>The statics of \<^verbatim>\<open>phi_sensor.cpp\<close>.\<close>

record phi_sensor =
  g_config :: PhiSensorConfig
  g_stats :: PhiSensorStatistics
  g_calibration :: PhiSensorCalibration
  g_initialized :: bool
  g_running :: bool
  g_sample_counter :: uint32_t
  g_last_sample_us :: uint32_t
  g_current_data :: PhiSensorData
  g_data_ready :: bool
  g_filter_state :: "real list"

text \<open>
  \<^verbatim>\<open>platform_adc_read\<close>: \<open>analogRead\<close> is the hardware's reading per pin. The result
  is cut to 16 bits by the return type; on the Raspberry Pi the shift is an arithmetic one.
\<close>

definition phi_platform_adc_read ::
  "platform \<Rightarrow> (int \<Rightarrow> int) \<Rightarrow> phi_sensor \<Rightarrow> nat \<Rightarrow> uint16_t" where
  "phi_platform_adc_read pf analogRead s channel =
     (case pf of
        TEENSY \<Rightarrow>
          if channel \<ge> PHI_SENSOR_CHANNELS then 0
          else word_of_int (analogRead (int (adc_pins (g_config s) ! channel)))
      | RASPBERRY_PI \<Rightarrow> word_of_int ((analogRead (100 + int channel) + 32768) div 16)
      | GENERIC \<Rightarrow> word_of_nat (PHI_SENSOR_ADC_MAX div 2))"

definition adc_to_voltage :: "uint16_t \<Rightarrow> real" where
  "adc_to_voltage adc_value =
     (real (unat adc_value) / real PHI_SENSOR_ADC_MAX) * PHI_SENSOR_VOLTAGE_MAX"

definition apply_calibration :: "phi_sensor \<Rightarrow> real \<Rightarrow> nat \<Rightarrow> real" where
  "apply_calibration s v channel =
     (if \<not> enable_calibration (g_config s) \<or> \<not> calibrated (g_stats s)
      then v / PHI_SENSOR_VOLTAGE_MAX
      else
        let v_min = voltage_min (g_calibration s) ! channel;
            v_max = voltage_max (g_calibration s) ! channel
        in if v_max \<le> v_min then 1 / 2
           else
             let normalized0 = (v - v_min) / (v_max - v_min);
                 normalized1 = (if normalized0 < 0 then 0 else normalized0)
             in if normalized1 > 1 then 1 else normalized1)"

text \<open>\<^verbatim>\<open>apply_filter\<close> returns the filtered value and the statics with the new filter state.\<close>

definition apply_filter :: "real \<Rightarrow> nat \<Rightarrow> phi_sensor \<Rightarrow> real \<times> phi_sensor" where
  "apply_filter new_value channel s =
     (if \<not> enable_filtering (g_config s) then (new_value, s)
      else
        let st = FILTER_ALPHA * new_value + (1 - FILTER_ALPHA) * (g_filter_state s ! channel)
        in (st, s\<lparr>g_filter_state := (g_filter_state s)[channel := st]\<rparr>))"

text \<open>
  The body of the channel loop of \<^verbatim>\<open>sample_timer_isr\<close>; the local \<open>data\<close> and the
  statics are the loop's state.
\<close>

definition isr_channel ::
  "(int \<Rightarrow> int) \<Rightarrow> nat \<Rightarrow> PhiSensorData \<times> phi_sensor \<Rightarrow> PhiSensorData \<times> phi_sensor" where
  "isr_channel analogRead ch ds =
     (let (data, s) = ds;
          raw = phi_platform_adc_read TEENSY analogRead s ch;
          v = adc_to_voltage raw;
          n = apply_calibration s v ch;
          (f, s') = apply_filter n ch s
      in (data\<lparr>raw_adc := (raw_adc data)[ch := raw],
                voltage := (voltage data)[ch := v],
                normalized := (normalized data)[ch := f]\<rparr>, s'))"

text \<open>
  \<^verbatim>\<open>sample_timer_isr\<close> exists in the Teensy build only. \<open>now_us\<close> is what
  \<^verbatim>\<open>micros()\<close> returns; \<open>data0\<close> is the uninitialised local, all of whose fields the
  handler assigns.
\<close>

definition sample_timer_isr ::
  "uint32_t \<Rightarrow> (int \<Rightarrow> int) \<Rightarrow> PhiSensorData \<Rightarrow> phi_sensor \<Rightarrow> phi_sensor" where
  "sample_timer_isr now_us analogRead data0 s =
     (if \<not> g_running s then s
      else
        let s1 = s\<lparr>g_last_sample_us := now_us\<rparr>;
            data1 = data0\<lparr>timestamp_us := now_us, sample_number := g_sample_counter s1\<rparr>;
            s2 = s1\<lparr>g_sample_counter := g_sample_counter s1 + 1\<rparr>;
            (data2, s3) = fold (isr_channel analogRead) [0 ..< PHI_SENSOR_CHANNELS] (data1, s2)
        in s3\<lparr>g_current_data := data2, g_data_ready := True,
               g_stats := (g_stats s3)\<lparr>total_samples := total_samples (g_stats s3) + 1\<rparr>\<rparr>)"

text \<open>The statics of the sensor module as the program starts, and \<^verbatim>\<open>phi_sensor_init\<close>.\<close>

definition phi_platform_adc_init :: "platform \<Rightarrow> bool" where
  "phi_platform_adc_init pf = (pf \<noteq> GENERIC)"

definition phi_zero_data :: PhiSensorData where
  "phi_zero_data =
     \<lparr>raw_adc = replicate PHI_SENSOR_CHANNELS 0, voltage = replicate PHI_SENSOR_CHANNELS 0,
      normalized = replicate PHI_SENSOR_CHANNELS 0, timestamp_us = 0, sample_number = 0\<rparr>"

definition phi_zero_stats :: PhiSensorStatistics where
  "phi_zero_stats =
     \<lparr>total_samples = 0, sample_rate_actual = 0, sample_rate_jitter = 0, dropped_samples = 0,
      signal_quality = replicate PHI_SENSOR_CHANNELS 0, calibrated = False\<rparr>"

definition phi_zero_calibration :: PhiSensorCalibration where
  "phi_zero_calibration =
     \<lparr>offset = replicate PHI_SENSOR_CHANNELS 0, scale = replicate PHI_SENSOR_CHANNELS 0,
      voltage_min = replicate PHI_SENSOR_CHANNELS 0, voltage_max = replicate PHI_SENSOR_CHANNELS 0,
      calibration_samples = 0, residual_error = 0\<rparr>"

definition phi_program_start :: phi_sensor where
  "phi_program_start =
     \<lparr>g_config = \<lparr>adc_pins = replicate PHI_SENSOR_CHANNELS 0, sample_rate_hz = 0,
                  enable_filtering = False, filter_cutoff_hz = 0, enable_calibration = False\<rparr>,
      g_stats = phi_zero_stats, g_calibration = phi_zero_calibration,
      g_initialized = False, g_running = False, g_sample_counter = 0, g_last_sample_us = 0,
      g_current_data = phi_zero_data, g_data_ready = False,
      g_filter_state = replicate PHI_SENSOR_CHANNELS 0\<rparr>"

definition phi_sensor_init ::
  "platform \<Rightarrow> PhiSensorConfig option \<Rightarrow> phi_sensor \<Rightarrow> bool \<times> phi_sensor" where
  "phi_sensor_init pf config s =
     (case config of
        None \<Rightarrow> (False, s)
      | Some c \<Rightarrow>
          let s1 = s\<lparr>g_config := c, g_stats := phi_zero_stats\<lparr>calibrated := False\<rparr>\<rparr>;
              s2 = s1\<lparr>g_calibration :=
                        fold (\<lambda>ch k. k\<lparr>offset := (offset k)[ch := 0],
                                        scale := (scale k)[ch := 1],
                                        voltage_min := (voltage_min k)[ch := 0],
                                        voltage_max := (voltage_max k)[ch := PHI_SENSOR_VOLTAGE_MAX]\<rparr>)
                          [0 ..< PHI_SENSOR_CHANNELS] phi_zero_calibration\<rparr>
          in if \<not> phi_platform_adc_init pf then (False, s2)
             else (True, s2\<lparr>g_initialized := True\<rparr>))"

definition phi_get_timestamp_us :: "platform \<Rightarrow> uint32_t \<Rightarrow> phi_sensor \<Rightarrow> uint32_t" where
  "phi_get_timestamp_us pf now_us s =
     (if pf = TEENSY then now_us
      else g_sample_counter s * word_of_nat (1000000 div PHI_SENSOR_SAMPLE_RATE))"

definition phi_sensor_start :: "platform \<Rightarrow> uint32_t \<Rightarrow> phi_sensor \<Rightarrow> bool \<times> phi_sensor" where
  "phi_sensor_start pf now_us s =
     (if \<not> g_initialized s \<or> g_running s then (False, s)
      else
        let s1 = s\<lparr>g_running := True, g_sample_counter := 0\<rparr>
        in (True, s1\<lparr>g_last_sample_us := phi_get_timestamp_us pf now_us s1\<rparr>))"

definition phi_sensor_stop :: "phi_sensor \<Rightarrow> bool \<times> phi_sensor" where
  "phi_sensor_stop s =
     (if \<not> g_running s then (False, s)
      else (True, s\<lparr>g_running := False\<rparr>))"

text \<open>
  \<^verbatim>\<open>phi_sensor_read\<close>: the second component is the caller's structure after the call.
\<close>

definition phi_sensor_read ::
  "PhiSensorData option \<Rightarrow> phi_sensor \<Rightarrow> bool \<times> PhiSensorData option \<times> phi_sensor" where
  "phi_sensor_read data s =
     (if data = None \<or> \<not> g_running s then (False, data, s)
      else if \<not> g_data_ready s then (False, data, s)
      else (True, Some (g_current_data s), s\<lparr>g_data_ready := False\<rparr>))"

definition phi_sensor_data_available :: "phi_sensor \<Rightarrow> bool" where
  "phi_sensor_data_available s = g_data_ready s"

text \<open>
  A sensor on the Teensy that has been initialised and started and whose timer has fired
  once, with every pin reading mid-scale.
\<close>

definition phi_test_config :: PhiSensorConfig where
  "phi_test_config =
     \<lparr>adc_pins = [14, 15, 16, 17], sample_rate_hz = 30, enable_filtering = True,
      filter_cutoff_hz = 10, enable_calibration = False\<rparr>"

definition phi_started :: phi_sensor where
  "phi_started =
     snd (phi_sensor_start TEENSY 0 (snd (phi_sensor_init TEENSY (Some phi_test_config)
       phi_program_start)))"

definition phi_sampled :: phi_sensor where
  "phi_sampled = sample_timer_isr 33333 (\<lambda>pin. 2048) phi_zero_data phi_started"

section \<open>Hybrid analog/DSP node (\<^verbatim>\<open>hybrid_node.cpp\<close>)\<close>

subsection \<open>Constants and data (\<^verbatim>\<open>hybrid_node.h\<close>)\<close>

definition HYBRID_SAMPLE_RATE :: nat where
  "HYBRID_SAMPLE_RATE = 48000"

definition HYBRID_BUFFER_SIZE :: nat where
  "HYBRID_BUFFER_SIZE = 512"

definition HYBRID_FFT_SIZE :: nat where
  "HYBRID_FFT_SIZE = 1024"

definition HYBRID_ADC_CHANNELS :: nat where
  "HYBRID_ADC_CHANNELS = 2"

definition HYBRID_DAC_CHANNELS :: nat where
  "HYBRID_DAC_CHANNELS = 4"

definition ANALOG_HPF_CUTOFF :: real where
  "ANALOG_HPF_CUTOFF = 120"

definition ANALOG_LPF_CUTOFF :: real where
  "ANALOG_LPF_CUTOFF = 8000"

definition ANALOG_PREAMP_GAIN_MIN :: real where
  "ANALOG_PREAMP_GAIN_MIN = 1"

definition ANALOG_PREAMP_GAIN_MAX :: real where
  "ANALOG_PREAMP_GAIN_MAX = 40"

definition SAFETY_VOLTAGE_MAX :: real where
  "SAFETY_VOLTAGE_MAX = 5"

definition SAFETY_VOLTAGE_MIN :: real where
  "SAFETY_VOLTAGE_MIN = 0"

definition SAFETY_TEMP_WARNING :: real where
  "SAFETY_TEMP_WARNING = 70"

definition SAFETY_TEMP_CRITICAL :: real where
  "SAFETY_TEMP_CRITICAL = 85"

definition SAFETY_OVERLOAD_THRESH :: real where
  "SAFETY_OVERLOAD_THRESH = 95 / 100"

definition CAL_SAMPLES :: nat where
  "CAL_SAMPLES = 10"

datatype HybridInterfaceType = HYBRID_INTERFACE_I2S | HYBRID_INTERFACE_SPI | HYBRID_INTERFACE_USB

datatype HybridNodeMode =
  HYBRID_MODE_ANALOG_ONLY | HYBRID_MODE_DSP_ONLY | HYBRID_MODE_HYBRID | HYBRID_MODE_CALIBRATION

datatype HybridSafetyStatus =
  HYBRID_SAFETY_OK | HYBRID_SAFETY_VOLTAGE_CLAMP | HYBRID_SAFETY_TEMP_WARNING
  | HYBRID_SAFETY_TEMP_CRITICAL | HYBRID_SAFETY_ADC_OVERLOAD | HYBRID_SAFETY_FAULT

text \<open>
  Sizes and counts (\<^verbatim>\<open>uint8_t\<close>, \<^verbatim>\<open>uint16_t\<close>, \<^verbatim>\<open>size_t\<close>) that the code only
  multiplies into indices are natural numbers: a frame count is bounded by the buffers
  that the caller hands over, so the index arithmetic stays below the width of
  \<^verbatim>\<open>size_t\<close>. The counters that the code increments are words of their width, so that
  an increment wraps as in C. One product takes a configuration value that can push it
  past the width: \<^verbatim>\<open>k * g_config.sample_rate\<close> in the centroid loop, a \<^verbatim>\<open>size_t\<close> times
  a \<^verbatim>\<open>uint32_t\<close>. The usual arithmetic conversions compute it in the wider of the two
  unsigned types, so modulo \<open>2 ^ max size_bits 32\<close>, where \<open>size_bits\<close> is the width of
  \<^verbatim>\<open>size_t\<close> on the target (32 on the Teensy 4.x, 32 or 64 elsewhere) and a parameter of
  the model.
\<close>

definition size_t_mult :: "nat \<Rightarrow> nat \<Rightarrow> nat \<Rightarrow> nat" where
  "size_t_mult size_bits k rate = (k * rate) mod 2 ^ max size_bits 32"

text \<open>
  The preamp gain is a \<^verbatim>\<open>float\<close> that arrives from the caller and that the code guards
  with comparisons, so for this member the one \<^verbatim>\<open>float\<close> that is not ordered is kept:
  a \<open>c_float\<close> is a real number or NaN. Every comparison with NaN is false, and a product
  with NaN is NaN. (An infinite gain is outside the range and the guard rejects it, as it
  rejects every number outside the range.)
\<close>

datatype c_float = Num real | NaN

fun c_less :: "c_float \<Rightarrow> c_float \<Rightarrow> bool" where
  "c_less (Num x) (Num y) = (x < y)"
| "c_less _ _ = False"

fun c_greater :: "c_float \<Rightarrow> c_float \<Rightarrow> bool" where
  "c_greater (Num x) (Num y) = (x > y)"
| "c_greater _ _ = False"

fun c_less_eq :: "c_float \<Rightarrow> c_float \<Rightarrow> bool" where
  "c_less_eq (Num x) (Num y) = (x \<le> y)"
| "c_less_eq _ _ = False"

fun c_times :: "c_float \<Rightarrow> c_float \<Rightarrow> c_float" where
  "c_times (Num x) (Num y) = Num (x * y)"
| "c_times _ _ = NaN"

record HybridNodeConfig =
  interface_type :: HybridInterfaceType
  sample_rate :: nat
  buffer_size :: nat
  adc_channels :: nat
  dac_channels :: nat
  preamp_gain :: c_float
  hpf_cutoff :: real
  lpf_cutoff :: real
  enable_analog_filter :: bool
  fft_size :: nat
  enable_dsp :: bool
  enable_coherence :: bool
  enable_ici :: bool
  enable_modulation :: bool
  modulation_depth :: real
  control_loop_rate :: real
  enable_voltage_clamp :: bool
  enable_thermal_monitor :: bool
  voltage_max :: real
  thermal_gpio_pin :: nat
  mode :: HybridNodeMode
  enable_logging :: bool

record AnalogMetrics =
  rms_level :: real
  peak_level :: real
  dc_offset :: real
  thd :: real
  snr_db :: real
  is_overloaded :: bool

record DSPMetrics =
  ici :: real
  coherence :: real
  criticality :: real
  spectral_centroid :: real
  spectral_flux :: real
  zero_crossing_rate :: real
  timestamp_us :: uint32_t

record ControlVoltage =
  cv1 :: real
  cv2 :: real
  phi_phase :: real
  phi_depth :: real

record SafetyTelemetry =
  status :: HybridSafetyStatus
  temperature :: real
  voltage_out :: "real list"
  overload_count :: uint32_t
  clamp_count :: uint32_t
  thermal_warning :: bool

record CalibrationData =
  adc_gain :: "real list"
  adc_offset :: "real list"
  dac_gain :: "real list"
  dac_offset :: "real list"
  adc_latency_us :: uint32_t
  dsp_latency_us :: uint32_t
  dac_latency_us :: uint32_t
  total_latency_us :: uint32_t
  calibration_timestamp :: uint32_t
  is_calibrated :: bool

record NodeStatistics =
  frames_processed :: uint64_t
  frames_dropped :: uint64_t
  cpu_load :: real
  buffer_utilization :: real
  uptime_ms :: uint32_t
  drift_ppm :: real
  modulation_fidelity :: real

record HybridNodeStatus =
  mode :: HybridNodeMode
  is_running :: bool
  is_calibrated :: bool
  analog :: AnalogMetrics
  dsp :: DSPMetrics
  control :: ControlVoltage
  safety :: SafetyTelemetry
  calibration :: CalibrationData
  stats :: NodeStatistics

text \<open>
  The statics of \<^verbatim>\<open>hybrid_node.cpp\<close>, with the two function-level statics
  \<open>hpf_state\<close> and \<open>lpf_state\<close> of \<^verbatim>\<open>apply_analog_filter\<close>.
\<close>

record hybrid_node =
  g_config :: HybridNodeConfig
  g_status :: HybridNodeStatus
  g_initialized :: bool
  g_running :: bool
  g_adc_buffer :: "real list"
  g_dac_buffer :: "real list"
  g_fft_input :: "real list"
  g_fft_output :: "real list"
  g_prev_spectral_centroid :: real
  g_last_zero_crossing :: uint32_t
  g_ici_buffer :: "real list"
  g_ici_index :: nat
  hpf_state :: "real list"
  lpf_state :: "real list"

text \<open>What \<^verbatim>\<open>memset(&g_status, 0, sizeof(HybridNodeStatus))\<close> leaves.\<close>

definition zero_status :: HybridNodeStatus where
  "zero_status =
     \<lparr>mode = HYBRID_MODE_ANALOG_ONLY, is_running = False, is_calibrated = False,
      analog = \<lparr>rms_level = 0, peak_level = 0, dc_offset = 0, thd = 0, snr_db = 0,
                is_overloaded = False\<rparr>,
      dsp = \<lparr>ici = 0, coherence = 0, criticality = 0, spectral_centroid = 0,
             spectral_flux = 0, zero_crossing_rate = 0, timestamp_us = 0\<rparr>,
      control = \<lparr>cv1 = 0, cv2 = 0, phi_phase = 0, phi_depth = 0\<rparr>,
      safety = \<lparr>status = HYBRID_SAFETY_OK, temperature = 0,
                voltage_out = replicate HYBRID_DAC_CHANNELS 0,
                overload_count = 0, clamp_count = 0, thermal_warning = False\<rparr>,
      calibration = \<lparr>adc_gain = replicate HYBRID_ADC_CHANNELS 0,
                     adc_offset = replicate HYBRID_ADC_CHANNELS 0,
                     dac_gain = replicate HYBRID_DAC_CHANNELS 0,
                     dac_offset = replicate HYBRID_DAC_CHANNELS 0,
                     adc_latency_us = 0, dsp_latency_us = 0, dac_latency_us = 0,
                     total_latency_us = 0, calibration_timestamp = 0, is_calibrated = False\<rparr>,
      stats = \<lparr>frames_processed = 0, frames_dropped = 0, cpu_load = 0,
               buffer_utilization = 0, uptime_ms = 0, drift_ppm = 0,
               modulation_fidelity = 0\<rparr>\<rparr>"

text \<open>
  The statics as the program starts. Static storage is zero-initialised, so the
  configuration starts as all zeros as well.
\<close>

definition zero_config :: HybridNodeConfig where
  "zero_config =
     \<lparr>interface_type = HYBRID_INTERFACE_I2S, sample_rate = 0, buffer_size = 0,
      adc_channels = 0, dac_channels = 0, preamp_gain = Num 0, hpf_cutoff = 0, lpf_cutoff = 0,
      enable_analog_filter = False, fft_size = 0, enable_dsp = False,
      enable_coherence = False, enable_ici = False, enable_modulation = False,
      modulation_depth = 0, control_loop_rate = 0, enable_voltage_clamp = False,
      enable_thermal_monitor = False, voltage_max = 0, thermal_gpio_pin = 0,
      mode = HYBRID_MODE_ANALOG_ONLY, enable_logging = False\<rparr>"

definition program_start :: hybrid_node where
  "program_start =
     \<lparr>g_config = zero_config, g_status = zero_status, g_initialized = False, g_running = False,
      g_adc_buffer = replicate (HYBRID_BUFFER_SIZE * HYBRID_ADC_CHANNELS) 0,
      g_dac_buffer = replicate (HYBRID_BUFFER_SIZE * HYBRID_DAC_CHANNELS) 0,
      g_fft_input = replicate HYBRID_FFT_SIZE 0,
      g_fft_output = replicate HYBRID_FFT_SIZE 0,
      g_prev_spectral_centroid = 0, g_last_zero_crossing = 0,
      g_ici_buffer = replicate 32 0, g_ici_index = 0,
      hpf_state = replicate HYBRID_ADC_CHANNELS 0,
      lpf_state = replicate HYBRID_ADC_CHANNELS 0\<rparr>"

text \<open>The configuration that the self-test \<^verbatim>\<open>main\<close> of \<^verbatim>\<open>hybrid_node.cpp\<close> builds.\<close>

definition self_test_config :: HybridNodeConfig where
  "self_test_config =
     \<lparr>interface_type = HYBRID_INTERFACE_I2S, sample_rate = HYBRID_SAMPLE_RATE,
      buffer_size = HYBRID_BUFFER_SIZE, adc_channels = HYBRID_ADC_CHANNELS,
      dac_channels = HYBRID_DAC_CHANNELS, preamp_gain = Num 10,
      hpf_cutoff = ANALOG_HPF_CUTOFF, lpf_cutoff = ANALOG_LPF_CUTOFF,
      enable_analog_filter = True, fft_size = HYBRID_FFT_SIZE, enable_dsp = True,
      enable_coherence = True, enable_ici = True, enable_modulation = True,
      modulation_depth = 8 / 10, control_loop_rate = 100, enable_voltage_clamp = True,
      enable_thermal_monitor = False, voltage_max = SAFETY_VOLTAGE_MAX, thermal_gpio_pin = 0,
      mode = HYBRID_MODE_HYBRID, enable_logging = True\<rparr>"

text \<open>Assignments to a member of one of the structures inside \<open>g_status\<close>.\<close>

definition upd_analog :: "(AnalogMetrics \<Rightarrow> AnalogMetrics) \<Rightarrow> hybrid_node \<Rightarrow> hybrid_node" where
  "upd_analog f s = s\<lparr>g_status := (g_status s)\<lparr>analog := f (analog (g_status s))\<rparr>\<rparr>"

definition upd_dsp :: "(DSPMetrics \<Rightarrow> DSPMetrics) \<Rightarrow> hybrid_node \<Rightarrow> hybrid_node" where
  "upd_dsp f s = s\<lparr>g_status := (g_status s)\<lparr>dsp := f (dsp (g_status s))\<rparr>\<rparr>"

definition upd_control :: "(ControlVoltage \<Rightarrow> ControlVoltage) \<Rightarrow> hybrid_node \<Rightarrow> hybrid_node" where
  "upd_control f s = s\<lparr>g_status := (g_status s)\<lparr>control := f (control (g_status s))\<rparr>\<rparr>"

definition upd_safety :: "(SafetyTelemetry \<Rightarrow> SafetyTelemetry) \<Rightarrow> hybrid_node \<Rightarrow> hybrid_node" where
  "upd_safety f s = s\<lparr>g_status := (g_status s)\<lparr>safety := f (safety (g_status s))\<rparr>\<rparr>"

definition upd_calibration ::
  "(CalibrationData \<Rightarrow> CalibrationData) \<Rightarrow> hybrid_node \<Rightarrow> hybrid_node" where
  "upd_calibration f s =
     s\<lparr>g_status := (g_status s)\<lparr>calibration := f (calibration (g_status s))\<rparr>\<rparr>"

definition upd_stats :: "(NodeStatistics \<Rightarrow> NodeStatistics) \<Rightarrow> hybrid_node \<Rightarrow> hybrid_node" where
  "upd_stats f s = s\<lparr>g_status := (g_status s)\<lparr>stats := f (stats (g_status s))\<rparr>\<rparr>"

subsection \<open>Platform stubs\<close>

text \<open>
  \<^verbatim>\<open>platform_adc_init\<close>, \<^verbatim>\<open>platform_dac_init\<close> and \<^verbatim>\<open>platform_dac_write\<close> return
  \<^verbatim>\<open>true\<close> on every build target and touch nothing. \<^verbatim>\<open>platform_adc_read\<close> clears
  the buffer on the generic target and leaves it alone on the other two.
\<close>

definition platform_adc_init :: "platform \<Rightarrow> bool" where
  "platform_adc_init pf = True"

definition platform_dac_init :: "platform \<Rightarrow> bool" where
  "platform_dac_init pf = True"

definition platform_dac_write :: "platform \<Rightarrow> real list \<Rightarrow> nat \<Rightarrow> bool" where
  "platform_dac_write pf buffer frames = True"

definition platform_adc_read ::
  "platform \<Rightarrow> real list \<Rightarrow> nat \<Rightarrow> hybrid_node \<Rightarrow> bool \<times> real list" where
  "platform_adc_read pf buffer frames s =
     (if pf = GENERIC
      then (True, fold (\<lambda>i b. b[i := 0]) [0 ..< frames * adc_channels (g_config s)] buffer)
      else (True, buffer))"

subsection \<open>Life cycle\<close>

definition hybrid_node_init ::
  "platform \<Rightarrow> HybridNodeConfig option \<Rightarrow> hybrid_node \<Rightarrow> bool \<times> hybrid_node" where
  "hybrid_node_init pf config s =
     (case config of
        None \<Rightarrow> (False, s)
      | Some c \<Rightarrow>
          let s1 = s\<lparr>g_config := c\<rparr>;
              s2 = s1\<lparr>g_status := zero_status\<lparr>mode := HybridNodeConfig.mode c,
                                               is_running := False,
                                               is_calibrated := False\<rparr>\<rparr>;
              s3 = upd_calibration
                     (\<lambda>k. k\<lparr>adc_gain := fold (\<lambda>i g. g[i := 1]) [0 ..< HYBRID_ADC_CHANNELS]
                                            (adc_gain k),
                             adc_offset := fold (\<lambda>i g. g[i := 0]) [0 ..< HYBRID_ADC_CHANNELS]
                                            (adc_offset k),
                             dac_gain := fold (\<lambda>i g. g[i := 1]) [0 ..< HYBRID_DAC_CHANNELS]
                                            (dac_gain k),
                             dac_offset := fold (\<lambda>i g. g[i := 0]) [0 ..< HYBRID_DAC_CHANNELS]
                                            (dac_offset k)\<rparr>) s2
          in if \<not> platform_adc_init pf then (False, s3)
             else if \<not> platform_dac_init pf then (False, s3)
             else
               let s4 = upd_safety (\<lambda>t. t\<lparr>status := HYBRID_SAFETY_OK, temperature := 25\<rparr>) s3
               in (True, s4\<lparr>g_initialized := True\<rparr>))"

definition hybrid_node_start :: "hybrid_node \<Rightarrow> bool \<times> hybrid_node" where
  "hybrid_node_start s =
     (if \<not> g_initialized s \<or> g_running s then (False, s)
      else
        let s1 = upd_stats (\<lambda>t. t\<lparr>frames_processed := 0, frames_dropped := 0, uptime_ms := 0\<rparr>) s;
            s2 = s1\<lparr>g_running := True\<rparr>
        in (True, s2\<lparr>g_status := (g_status s2)\<lparr>is_running := True\<rparr>\<rparr>))"

definition hybrid_node_stop :: "platform \<Rightarrow> hybrid_node \<Rightarrow> bool \<times> hybrid_node" where
  "hybrid_node_stop pf s =
     (if \<not> g_running s then (False, s)
      else
        let s1 = s\<lparr>g_running := False\<rparr>;
            s2 = s1\<lparr>g_status := (g_status s1)\<lparr>is_running := False\<rparr>\<rparr>;
            s3 = s2\<lparr>g_dac_buffer := replicate (length (g_dac_buffer s2)) 0\<rparr>;
            written = platform_dac_write pf (g_dac_buffer s3) (buffer_size (g_config s3))
        in (True, s3))"

definition hybrid_node_emergency_shutdown ::
  "platform \<Rightarrow> string \<Rightarrow> hybrid_node \<Rightarrow> bool \<times> hybrid_node" where
  "hybrid_node_emergency_shutdown pf reason s =
     (let s1 = snd (hybrid_node_stop pf s);
          s2 = upd_safety (\<lambda>t. t\<lparr>status := HYBRID_SAFETY_FAULT\<rparr>) s1;
          s3 = s2\<lparr>g_dac_buffer := replicate (length (g_dac_buffer s2)) 0\<rparr>;
          written = platform_dac_write pf (g_dac_buffer s3) (buffer_size (g_config s3));
          s4 = upd_control (\<lambda>c. c\<lparr>cv1 := 0, cv2 := 0\<rparr>) s3
      in (True, s4))"

subsection \<open>Operator settings\<close>

definition hybrid_node_set_preamp_gain :: "c_float \<Rightarrow> hybrid_node \<Rightarrow> bool \<times> hybrid_node" where
  "hybrid_node_set_preamp_gain gain s =
     (if c_less gain (Num ANALOG_PREAMP_GAIN_MIN) \<or> c_greater gain (Num ANALOG_PREAMP_GAIN_MAX)
      then (False, s)
      else (True, s\<lparr>g_config := (g_config s)\<lparr>preamp_gain := gain\<rparr>\<rparr>))"

definition hybrid_node_set_control_voltage ::
  "ControlVoltage option \<Rightarrow> hybrid_node \<Rightarrow> bool \<times> hybrid_node" where
  "hybrid_node_set_control_voltage cv s =
     (case cv of
        None \<Rightarrow> (False, s)
      | Some v \<Rightarrow>
          let s1 = (if enable_voltage_clamp (g_config s)
                    then upd_control
                           (\<lambda>c. c\<lparr>cv1 := min (max (cv1 v) SAFETY_VOLTAGE_MIN) SAFETY_VOLTAGE_MAX,
                                   cv2 := min (max (cv2 v) SAFETY_VOLTAGE_MIN) SAFETY_VOLTAGE_MAX\<rparr>)
                           s
                    else upd_control (\<lambda>c. c\<lparr>cv1 := cv1 v, cv2 := cv2 v\<rparr>) s)
          in (True, upd_control (\<lambda>c. c\<lparr>phi_phase := phi_phase v, phi_depth := phi_depth v\<rparr>) s1))"

subsection \<open>Signal conditioning\<close>

text \<open>
  The body of the two nested loops of \<^verbatim>\<open>apply_analog_filter\<close>, for frame \<open>i\<close> and channel
  \<open>ch\<close>, in its two halves. The high-pass half is the source's
  \<^verbatim>\<open>hpf_state[ch] = hpf_coeff * (hpf_state[ch] + buffer[idx] - buffer[idx]);\<close>
  \<^verbatim>\<open>buffer[idx] = hpf_state[ch];\<close> and the low-pass half is
  \<^verbatim>\<open>lpf_state[ch] += lpf_coeff * (buffer[idx] - lpf_state[ch]);\<close>
  \<^verbatim>\<open>buffer[idx] = lpf_state[ch];\<close>
\<close>

definition hpf_stage ::
  "real \<Rightarrow> nat \<Rightarrow> nat \<Rightarrow> real list \<times> hybrid_node \<Rightarrow> real list \<times> hybrid_node" where
  "hpf_stage hpf_coeff idx ch bs =
     (let (buffer, s) = bs;
          s1 = s\<lparr>hpf_state := (hpf_state s)
                  [ch := hpf_coeff * (hpf_state s ! ch + buffer ! idx - buffer ! idx)]\<rparr>
      in (buffer[idx := hpf_state s1 ! ch], s1))"

definition lpf_stage ::
  "real \<Rightarrow> nat \<Rightarrow> nat \<Rightarrow> real list \<times> hybrid_node \<Rightarrow> real list \<times> hybrid_node" where
  "lpf_stage lpf_coeff idx ch bs =
     (let (buffer, s) = bs;
          s1 = s\<lparr>lpf_state := (lpf_state s)
                  [ch := lpf_state s ! ch + lpf_coeff * (buffer ! idx - lpf_state s ! ch)]\<rparr>
      in (buffer[idx := lpf_state s1 ! ch], s1))"

definition filter_sample ::
  "real \<Rightarrow> real \<Rightarrow> nat \<Rightarrow> nat \<Rightarrow> nat \<Rightarrow> real list \<times> hybrid_node \<Rightarrow> real list \<times> hybrid_node" where
  "filter_sample hpf_coeff lpf_coeff nch i ch bs =
     (let idx = i * nch + ch
      in lpf_stage lpf_coeff idx ch (hpf_stage hpf_coeff idx ch bs))"

definition apply_analog_filter ::
  "real list \<Rightarrow> nat \<Rightarrow> hybrid_node \<Rightarrow> real list \<times> hybrid_node" where
  "apply_analog_filter buffer frames s =
     (let hpf_coeff = 1 - exp (- 2 * pi * hpf_cutoff (g_config s) / real (sample_rate (g_config s)));
          lpf_coeff = 1 - exp (- 2 * pi * lpf_cutoff (g_config s) / real (sample_rate (g_config s)));
          nch = adc_channels (g_config s)
      in fold (\<lambda>i. fold (filter_sample hpf_coeff lpf_coeff nch i) [0 ..< nch])
           [0 ..< frames] (buffer, s))"

subsection \<open>Safety monitor\<close>

text \<open>
  \<^verbatim>\<open>safety_check\<close> is three blocks in a row: the overload check, the thermal check
  and the voltage-clamp check. The thermal block is compiled for the Teensy only;
  \<open>temp_raw\<close> is what \<^verbatim>\<open>analogRead(thermal_gpio_pin)\<close> returns.
\<close>

definition safety_overload :: "hybrid_node \<Rightarrow> hybrid_node" where
  "safety_overload s =
     (if is_overloaded (analog (g_status s))
      then
        let a = upd_safety (\<lambda>t. t\<lparr>overload_count := overload_count t + 1\<rparr>) s
        in if c_greater (preamp_gain (g_config a)) (Num ANALOG_PREAMP_GAIN_MIN)
           then a\<lparr>g_config := (g_config a)
                  \<lparr>preamp_gain := c_times (preamp_gain (g_config a)) (Num (9 / 10))\<rparr>\<rparr>
           else a
      else s)"

definition safety_thermal :: "platform \<Rightarrow> int \<Rightarrow> hybrid_node \<Rightarrow> hybrid_node" where
  "safety_thermal pf temp_raw s =
     (if pf = TEENSY \<and> enable_thermal_monitor (g_config s)
      then
        let t1 = upd_safety (\<lambda>t. t\<lparr>temperature := real_of_int temp_raw * (1 / 10)\<rparr>) s
        in if temperature (safety (g_status t1)) > SAFETY_TEMP_CRITICAL
           then upd_safety (\<lambda>t. t\<lparr>status := HYBRID_SAFETY_TEMP_CRITICAL\<rparr>)
                  (snd (hybrid_node_emergency_shutdown pf ''Temperature critical'' t1))
           else if temperature (safety (g_status t1)) > SAFETY_TEMP_WARNING
           then upd_safety (\<lambda>t. t\<lparr>thermal_warning := True,
                                   status := HYBRID_SAFETY_TEMP_WARNING\<rparr>) t1
           else t1
      else s)"

definition safety_clamp :: "hybrid_node \<Rightarrow> hybrid_node" where
  "safety_clamp s =
     (if enable_voltage_clamp (g_config s)
         \<and> (cv1 (control (g_status s)) \<ge> SAFETY_VOLTAGE_MAX
            \<or> cv2 (control (g_status s)) \<ge> SAFETY_VOLTAGE_MAX)
      then upd_safety (\<lambda>t. t\<lparr>clamp_count := clamp_count t + 1,
                              status := HYBRID_SAFETY_VOLTAGE_CLAMP\<rparr>) s
      else s)"

definition safety_check :: "platform \<Rightarrow> int \<Rightarrow> hybrid_node \<Rightarrow> hybrid_node" where
  "safety_check pf temp_raw s = safety_clamp (safety_thermal pf temp_raw (safety_overload s))"

subsection \<open>Metric analysis\<close>

text \<open>
  \<^verbatim>\<open>dsp_process_fft\<close>, in the build without \<^verbatim>\<open>USE_KISSFFT\<close>: the direct transform.
  \<open>dft_term\<close> is the body of the inner loop for bin \<open>k\<close> and sample \<open>n\<close>, \<open>dft_bin\<close> the
  body of the outer loop.
\<close>

definition dft_term :: "real list \<Rightarrow> nat \<Rightarrow> nat \<Rightarrow> real \<times> real \<Rightarrow> real \<times> real" where
  "dft_term x k n acc =
     (let (re, im) = acc;
          angle = 2 * pi * real k * real n / real HYBRID_FFT_SIZE
      in (re + x ! n * cos angle, im - x ! n * sin angle))"

definition dft_bin :: "real list \<Rightarrow> nat \<Rightarrow> real list \<Rightarrow> real list" where
  "dft_bin x k out =
     (let (re, im) = fold (dft_term x k) [0 ..< HYBRID_FFT_SIZE] (0, 0)
      in out[k * 2 := re, k * 2 + 1 := im])"

text \<open>The body of the centroid loop: the sums \<open>weighted_sum\<close> and \<open>magnitude_sum\<close>.\<close>

definition centroid_term ::
  "nat \<Rightarrow> nat \<Rightarrow> real list \<Rightarrow> nat \<Rightarrow> real \<times> real \<Rightarrow> real \<times> real" where
  "centroid_term size_bits rate out k acc =
     (let (weighted_sum, magnitude_sum) = acc;
          re = out ! (k * 2);
          im = out ! (k * 2 + 1);
          magnitude = sqrt (re * re + im * im);
          freq = real (size_t_mult size_bits k rate) / real HYBRID_FFT_SIZE
      in (weighted_sum + freq * magnitude, magnitude_sum + magnitude))"

definition centroid_sums :: "nat \<Rightarrow> nat \<Rightarrow> real list \<Rightarrow> real \<times> real" where
  "centroid_sums size_bits rate out =
     fold (centroid_term size_bits rate out) [1 ..< HYBRID_FFT_SIZE div 2] (0, 0)"

definition zero_crossing_step :: "real list \<Rightarrow> nat \<Rightarrow> nat \<Rightarrow> nat \<Rightarrow> nat" where
  "zero_crossing_step input nch i zero_crossings =
     (let prev = input ! ((i - 1) * nch);
          curr = input ! (i * nch)
      in if (prev \<ge> 0 \<and> curr < 0) \<or> (prev < 0 \<and> curr \<ge> 0)
         then zero_crossings + 1 else zero_crossings)"

text \<open>
  The blocks of \<^verbatim>\<open>dsp_process_fft\<close> in order: the window (first channel of each frame,
  zero-padded), the transform, the centroid with the flux, and the zero-crossing rate.
\<close>

definition fft_window :: "real list \<Rightarrow> nat \<Rightarrow> nat \<Rightarrow> real list \<Rightarrow> real list" where
  "fft_window input frames nch fft_input =
     (let w = fold (\<lambda>i b. b[i := input ! (i * nch)]) [0 ..< min frames HYBRID_FFT_SIZE] fft_input
      in if frames < HYBRID_FFT_SIZE
         then fold (\<lambda>i b. b[i := 0]) [frames ..< HYBRID_FFT_SIZE] w
         else w)"

definition dft :: "real list \<Rightarrow> real list \<Rightarrow> real list" where
  "dft x out = fold (dft_bin x) [0 ..< HYBRID_FFT_SIZE div 2] out"

definition spectral_update :: "nat \<Rightarrow> hybrid_node \<Rightarrow> hybrid_node" where
  "spectral_update size_bits s =
     (let (weighted_sum, magnitude_sum) =
            centroid_sums size_bits (sample_rate (g_config s)) (g_fft_output s);
          s1 = (if magnitude_sum > 0
                then upd_dsp (\<lambda>d. d\<lparr>spectral_centroid := weighted_sum / magnitude_sum\<rparr>) s
                else s);
          flux = \<bar>spectral_centroid (dsp (g_status s1)) - g_prev_spectral_centroid s1\<bar>;
          s2 = upd_dsp (\<lambda>d. d\<lparr>spectral_flux := flux\<rparr>) s1
      in s2\<lparr>g_prev_spectral_centroid := spectral_centroid (dsp (g_status s2))\<rparr>)"

definition dsp_process_fft :: "nat \<Rightarrow> real list \<Rightarrow> nat \<Rightarrow> hybrid_node \<Rightarrow> hybrid_node" where
  "dsp_process_fft size_bits input frames s =
     (let nch = adc_channels (g_config s);
          s1 = s\<lparr>g_fft_input := fft_window input frames nch (g_fft_input s)\<rparr>;
          s2 = s1\<lparr>g_fft_output := dft (g_fft_input s1) (g_fft_output s1)\<rparr>;
          s3 = spectral_update size_bits s2;
          zero_crossings = fold (zero_crossing_step input nch) [1 ..< frames] 0
      in upd_dsp (\<lambda>d. d\<lparr>zero_crossing_rate := real zero_crossings / real frames\<rparr>) s3)"

text \<open>
  \<^verbatim>\<open>dsp_calculate_ici\<close> and \<^verbatim>\<open>dsp_calculate_coherence\<close> are only called with
  \<^verbatim>\<open>&g_status.dsp.ici\<close> and \<^verbatim>\<open>&g_status.dsp.coherence\<close>, so the store through the
  pointer and the store that follows it go to the same member.
\<close>

definition ici_peak_step :: "hybrid_node \<Rightarrow> nat \<Rightarrow> nat \<times> nat \<Rightarrow> nat \<times> nat" where
  "ici_peak_step s i acc =
     (let (interval_samples, peak_count) = acc
      in if g_ici_buffer s ! i > 1 / 2
         then (interval_samples + buffer_size (g_config s), peak_count + 1)
         else (interval_samples, peak_count))"

definition dsp_calculate_ici :: "hybrid_node \<Rightarrow> hybrid_node" where
  "dsp_calculate_ici s =
     (let s1 = s\<lparr>g_ici_buffer := (g_ici_buffer s)[g_ici_index s := spectral_flux (dsp (g_status s))]\<rparr>;
          s2 = s1\<lparr>g_ici_index := (g_ici_index s1 + 1) mod 32\<rparr>;
          (interval_samples, peak_count) = fold (ici_peak_step s2) [0 ..< 32] (0, 0)
      in if peak_count > 1
         then
           let interval_s = real interval_samples / real (sample_rate (g_config s2))
           in upd_dsp (\<lambda>d. d\<lparr>ici := (interval_s / real peak_count) * 1000\<rparr>) s2
         else upd_dsp (\<lambda>d. d\<lparr>ici := 100\<rparr>) s2)"

definition dsp_calculate_coherence :: "hybrid_node \<Rightarrow> hybrid_node" where
  "dsp_calculate_coherence s =
     (let normalized_flux = min (spectral_flux (dsp (g_status s)) / 1000) 1
      in upd_dsp (\<lambda>d. d\<lparr>coherence := 1 - normalized_flux\<rparr>) s)"

subsection \<open>Control-voltage modulation\<close>

text \<open>
  \<^verbatim>\<open>apply_control_voltage\<close>, block by block: the two control voltages from the DSP
  metrics, the clamp, and the telemetry with the modulation fidelity.
\<close>

definition cv_modulate :: "hybrid_node \<Rightarrow> hybrid_node" where
  "cv_modulate s =
     (let depth_factor = phi_depth (control (g_status s)) * coherence (dsp (g_status s));
          rate_factor = 1000 / max (ici (dsp (g_status s))) 10
      in upd_control
           (\<lambda>c. c\<lparr>cv1 := depth_factor * SAFETY_VOLTAGE_MAX * modulation_depth (g_config s),
                   cv2 := min rate_factor 1 * SAFETY_VOLTAGE_MAX * modulation_depth (g_config s)\<rparr>)
           s)"

definition cv_clamp :: "hybrid_node \<Rightarrow> hybrid_node" where
  "cv_clamp s =
     (if enable_voltage_clamp (g_config s)
      then upd_control
             (\<lambda>c. c\<lparr>cv1 := min (max (cv1 c) SAFETY_VOLTAGE_MIN) SAFETY_VOLTAGE_MAX,
                     cv2 := min (max (cv2 c) SAFETY_VOLTAGE_MIN) SAFETY_VOLTAGE_MAX\<rparr>) s
      else s)"

definition cv_telemetry :: "hybrid_node \<Rightarrow> hybrid_node" where
  "cv_telemetry s =
     (let s1 = upd_safety
                 (\<lambda>t. t\<lparr>voltage_out := (voltage_out t)[2 := cv1 (control (g_status s)),
                                                        3 := cv2 (control (g_status s))]\<rparr>) s;
          target_cv1 = phi_depth (control (g_status s)) * SAFETY_VOLTAGE_MAX;
          error = \<bar>cv1 (control (g_status s)) - target_cv1\<bar> / SAFETY_VOLTAGE_MAX
      in upd_stats (\<lambda>t. t\<lparr>modulation_fidelity := (1 - error) * 100\<rparr>) s1)"

definition apply_control_voltage :: "hybrid_node \<Rightarrow> hybrid_node" where
  "apply_control_voltage s = cv_telemetry (cv_clamp (cv_modulate s))"

subsection \<open>The processing cycle\<close>

text \<open>The body of the loop that accumulates \<open>rms\<close>, \<open>peak\<close> and \<open>dc_sum\<close>.\<close>

definition analog_metrics_step ::
  "real list \<Rightarrow> nat \<Rightarrow> real \<times> real \<times> real \<Rightarrow> real \<times> real \<times> real" where
  "analog_metrics_step buffer i acc =
     (let (rms, peak, dc_sum) = acc;
          sample = buffer ! i
      in (rms + sample * sample, max peak \<bar>sample\<bar>, dc_sum + sample))"

text \<open>The body of the loop that fills the output buffer, for frame \<open>i\<close>.\<close>

definition output_frame :: "hybrid_node \<Rightarrow> nat \<Rightarrow> real list \<Rightarrow> real list" where
  "output_frame s i output =
     (let nadc = adc_channels (g_config s);
          ndac = dac_channels (g_config s);
          o1 = output[i * ndac + 0 := g_adc_buffer s ! (i * nadc + 0)];
          o2 = (if nadc > 1 then o1[i * ndac + 1 := g_adc_buffer s ! (i * nadc + 1)] else o1)
      in if ndac > 2
         then o2[i * ndac + 2 := cv1 (control (g_status s)),
                 i * ndac + 3 := cv2 (control (g_status s))]
         else o2)"

text \<open>
  \<^verbatim>\<open>hybrid_node_process\<close> is one function in the source; its statement blocks are named
  here in the order in which they run. \<open>micros0\<close> and \<open>micros1\<close> are the two readings
  of \<^verbatim>\<open>micros()\<close> on the Teensy, \<open>size_bits\<close> is the width of \<^verbatim>\<open>size_t\<close>.

  The copy into the working buffer and the conditioning: the \<^verbatim>\<open>memcpy\<close> copies
  \<open>frames * adc_channels\<close> samples, which the caller's buffer must hold and the working
  buffer must have room for.
\<close>

definition process_condition :: "real list \<Rightarrow> nat \<Rightarrow> hybrid_node \<Rightarrow> hybrid_node" where
  "process_condition inp frames s =
     (let n = frames * adc_channels (g_config s);
          s1 = s\<lparr>g_adc_buffer := take n inp @ drop n (g_adc_buffer s)\<rparr>
      in if enable_analog_filter (g_config s1)
         then
           let (b, t) = apply_analog_filter (g_adc_buffer s1) frames s1
           in t\<lparr>g_adc_buffer := b\<rparr>
         else s1)"

text \<open>The analog metrics of the conditioned buffer.\<close>

definition process_analog_metrics :: "nat \<Rightarrow> hybrid_node \<Rightarrow> hybrid_node" where
  "process_analog_metrics frames s =
     (let n = frames * adc_channels (g_config s);
          (rms, peak, dc_sum) = fold (analog_metrics_step (g_adc_buffer s)) [0 ..< n] (0, 0, 0)
      in upd_analog
           (\<lambda>a. a\<lparr>rms_level := sqrt (rms / real n),
                   peak_level := peak,
                   dc_offset := dc_sum / real n,
                   is_overloaded := (peak > SAFETY_OVERLOAD_THRESH)\<rparr>) s)"

text \<open>The DSP block, which runs only while the safety status is \<open>HYBRID_SAFETY_OK\<close>.\<close>

definition process_dsp :: "nat \<Rightarrow> uint32_t \<Rightarrow> nat \<Rightarrow> hybrid_node \<Rightarrow> hybrid_node" where
  "process_dsp size_bits start_us frames s =
     (if enable_dsp (g_config s) \<and> status (safety (g_status s)) = HYBRID_SAFETY_OK
      then
        let a = dsp_process_fft size_bits (g_adc_buffer s) frames s;
            b = (if enable_ici (g_config a) then dsp_calculate_ici a else a);
            c = (if enable_coherence (g_config b) then dsp_calculate_coherence b else b)
        in upd_dsp (\<lambda>d. d\<lparr>timestamp_us := start_us\<rparr>) c
      else s)"

text \<open>The statistics at the end of the cycle; the latency part is compiled for the Teensy only.\<close>

definition process_statistics ::
  "platform \<Rightarrow> uint32_t \<Rightarrow> uint32_t \<Rightarrow> nat \<Rightarrow> hybrid_node \<Rightarrow> hybrid_node" where
  "process_statistics pf start_us micros1 frames s =
     (let s1 = upd_stats (\<lambda>t. t\<lparr>frames_processed := frames_processed t + 1\<rparr>) s
      in if pf = TEENSY
         then
           let latency_us = micros1 - start_us;
               t1 = upd_calibration (\<lambda>k. k\<lparr>total_latency_us := latency_us\<rparr>) s1;
               buffer_duration_us = (real frames * 1000000) / real (sample_rate (g_config t1))
           in upd_stats
                (\<lambda>t. t\<lparr>cpu_load := (real (unat latency_us) / buffer_duration_us) * 100\<rparr>) t1
         else s1)"

text \<open>
  The whole cycle. The second component of the result is the caller's output buffer after
  the call.
\<close>

definition hybrid_node_process ::
  "platform \<Rightarrow> nat \<Rightarrow> int \<Rightarrow> uint32_t \<Rightarrow> uint32_t \<Rightarrow> real list option \<Rightarrow> real list option
     \<Rightarrow> nat \<Rightarrow> hybrid_node \<Rightarrow> bool \<times> real list option \<times> hybrid_node" where
  "hybrid_node_process pf size_bits temp_raw micros0 micros1 input output frames s =
     (case (g_running s, input, output) of
        (True, Some inp, Some outp) \<Rightarrow>
          let start_us = (if pf = TEENSY then micros0 else 0);
              s2 = process_condition inp frames s;
              s3 = process_analog_metrics frames s2;
              s4 = safety_check pf temp_raw s3;
              s5 = process_dsp size_bits start_us frames s4;
              s6 = (if enable_modulation (g_config s5) then apply_control_voltage s5 else s5);
              out = fold (output_frame s6) [0 ..< frames] outp;
              s8 = process_statistics pf start_us micros1 frames s6
          in (True, Some out, s8)
      | _ \<Rightarrow> (False, output, s))"

subsection \<open>Calibration\<close>

text \<open>
  \<^verbatim>\<open>hybrid_node_calibrate\<close>. \<open>micros0\<close> and \<open>micros1\<close> are the Teensy's two clock
  readings around the loopback, \<open>now\<close> is \<^verbatim>\<open>time(NULL)\<close>. The local table
  \<open>adc_samples\<close> has a row per channel; every entry that is read has been written before.
  The second component of the result is the caller's structure \<open>cal_arg\<close> after the call.
\<close>

definition cal_channel_mean :: "hybrid_node \<Rightarrow> nat \<Rightarrow> real" where
  "cal_channel_mean s ch =
     fold (\<lambda>i sum. sum + g_adc_buffer s ! (i * adc_channels (g_config s) + ch))
       [0 ..< buffer_size (g_config s)] 0
     / real (buffer_size (g_config s))"

definition cal_acquire ::
  "platform \<Rightarrow> nat \<Rightarrow> real list list \<times> hybrid_node \<Rightarrow> real list list \<times> hybrid_node" where
  "cal_acquire pf sample ts =
     (let (adc_samples, s) = ts;
          s1 = s\<lparr>g_adc_buffer := snd (platform_adc_read pf (g_adc_buffer s) (buffer_size (g_config s)) s)\<rparr>
      in (fold (\<lambda>ch tab. tab[ch := (tab ! ch)[sample := cal_channel_mean s1 ch]])
            [0 ..< adc_channels (g_config s1)] adc_samples,
          s1))"

definition hybrid_node_calibrate ::
  "platform \<Rightarrow> uint32_t \<Rightarrow> uint32_t \<Rightarrow> uint32_t \<Rightarrow> CalibrationData option \<Rightarrow> hybrid_node
     \<Rightarrow> bool \<times> CalibrationData option \<times> hybrid_node" where
  "hybrid_node_calibrate pf micros0 micros1 now cal_arg s =
     (case cal_arg of
        None \<Rightarrow> (False, cal_arg, s)
      | Some cal \<Rightarrow>
          if g_running s then (False, cal_arg, s)
          else
            let (adc_samples, s1) =
                  fold (cal_acquire pf) [0 ..< CAL_SAMPLES]
                    (replicate HYBRID_ADC_CHANNELS (replicate CAL_SAMPLES 0), s);
                cal1 = fold (\<lambda>ch k. k\<lparr>adc_offset := (adc_offset k)
                               [ch := - (fold (\<lambda>i sum. sum + adc_samples ! ch ! i) [0 ..< CAL_SAMPLES] 0
                                         / real CAL_SAMPLES)]\<rparr>)
                         [0 ..< adc_channels (g_config s1)] cal;
                cal2 = fold (\<lambda>ch k. k\<lparr>dac_gain := (dac_gain k)[ch := 1],
                                       dac_offset := (dac_offset k)[ch := 0]\<rparr>)
                         [0 ..< dac_channels (g_config s1)] cal1;
                s2 = s1\<lparr>g_dac_buffer := (replicate (length (g_dac_buffer s1)) 0)[0 := 1]\<rparr>;
                written = platform_dac_write pf (g_dac_buffer s2) (buffer_size (g_config s2));
                s3 = s2\<lparr>g_adc_buffer :=
                          snd (platform_adc_read pf (g_adc_buffer s2) (buffer_size (g_config s2)) s2)\<rparr>;
                total = (if pf = TEENSY then micros1 - micros0 else 2000);
                cal3 = cal2\<lparr>total_latency_us := total,
                            adc_latency_us := total div 3,
                            dsp_latency_us := total div 3,
                            dac_latency_us := total div 3,
                            calibration_timestamp := now,
                            CalibrationData.is_calibrated := True\<rparr>;
                s4 = s3\<lparr>g_status := (g_status s3)\<lparr>calibration := cal3, is_calibrated := True\<rparr>\<rparr>
            in (True, Some cal3, s4))"

subsection \<open>A freshly started node\<close>

text \<open>
  \<^verbatim>\<open>hybrid_node_init(&c)\<close> followed by \<^verbatim>\<open>hybrid_node_start()\<close>, from the statics as the
  program starts.
\<close>

definition fresh_node :: "platform \<Rightarrow> HybridNodeConfig \<Rightarrow> hybrid_node" where
  "fresh_node pf c = snd (hybrid_node_start (snd (hybrid_node_init pf (Some c) program_start)))"


text \<open>
  The arrays among the statics have their declared sizes, and the two filter states hold
  zeros. The program starts like this, and the calls of the interface keep it so as long
  as a cycle stays inside the working buffer (\<open>hybrid_node_process_shaped\<close> below).
\<close>

definition statics_shaped :: "hybrid_node \<Rightarrow> bool" where
  "statics_shaped s \<longleftrightarrow>
     length (g_adc_buffer s) = HYBRID_BUFFER_SIZE * HYBRID_ADC_CHANNELS
     \<and> length (g_fft_input s) = HYBRID_FFT_SIZE
     \<and> length (g_fft_output s) = HYBRID_FFT_SIZE
     \<and> hpf_state s = replicate HYBRID_ADC_CHANNELS 0
     \<and> lpf_state s = replicate HYBRID_ADC_CHANNELS 0"

subsection \<open>Scenarios\<close>

text \<open>The peak of the conditioned buffer, as the cycle stores it in \<open>peak_level\<close>.\<close>

definition conditioned_peak :: "real list \<Rightarrow> nat \<Rightarrow> hybrid_node \<Rightarrow> real" where
  "conditioned_peak inp frames s =
     peak_level (analog (g_status (process_analog_metrics frames (process_condition inp frames s))))"

text \<open>
  An operator request for \<open>v\<close> volts on the first control output, and a node on which the
  clamp has engaged once (the operator asked for 5 V, one cycle's \<open>safety_check\<close> ran)
  and the operator has then asked for 0 V again.
\<close>

definition cv_request :: "real \<Rightarrow> ControlVoltage" where
  "cv_request v = \<lparr>cv1 = v, cv2 = 0, phi_phase = 0, phi_depth = 0\<rparr>"

definition clamp_engaged :: hybrid_node where
  "clamp_engaged =
     safety_check GENERIC 0
       (snd (hybrid_node_set_control_voltage (Some (cv_request 5))
          (fresh_node GENERIC self_test_config)))"

definition clamp_released :: hybrid_node where
  "clamp_released = snd (hybrid_node_set_control_voltage (Some (cv_request 0)) clamp_engaged)"

text \<open>
  A node without the analog filter whose operator has set the preamp gain to 1.05, just
  above the floor.
\<close>

definition unfiltered_config :: HybridNodeConfig where
  "unfiltered_config = self_test_config\<lparr>enable_analog_filter := False\<rparr>"

definition near_floor_node :: hybrid_node where
  "near_floor_node =
     snd (hybrid_node_set_preamp_gain (Num (21 / 20)) (fresh_node GENERIC unfiltered_config))"

text \<open>
  The spectral centroid in the specification's words: over the non-DC bins
  \<open>1 ..< HYBRID_FFT_SIZE div 2\<close> of the magnitude spectrum, the magnitude-weighted mean
  frequency, and 0 if the magnitudes sum to 0. \<open>out\<close> is the transform's output, real and
  imaginary part of bin \<open>k\<close> at \<open>2k\<close> and \<open>2k + 1\<close>; \<open>dft_re\<close> and \<open>dft_im\<close> are the
  two parts of the discrete Fourier transform of the window \<open>x\<close> as sums.
\<close>

definition dft_angle :: "nat \<Rightarrow> nat \<Rightarrow> real" where
  "dft_angle k n = 2 * pi * real k * real n / real HYBRID_FFT_SIZE"

definition dft_re :: "real list \<Rightarrow> nat \<Rightarrow> real" where
  "dft_re x k = (\<Sum>n < HYBRID_FFT_SIZE. x ! n * cos (dft_angle k n))"

definition dft_im :: "real list \<Rightarrow> nat \<Rightarrow> real" where
  "dft_im x k = - (\<Sum>n < HYBRID_FFT_SIZE. x ! n * sin (dft_angle k n))"

definition bin_magnitude :: "real list \<Rightarrow> nat \<Rightarrow> real" where
  "bin_magnitude out k = sqrt (out ! (k * 2) * out ! (k * 2) + out ! (k * 2 + 1) * out ! (k * 2 + 1))"

definition bin_frequency :: "nat \<Rightarrow> nat \<Rightarrow> real" where
  "bin_frequency rate k = real (k * rate) / real HYBRID_FFT_SIZE"

definition magnitude_total :: "real list \<Rightarrow> real" where
  "magnitude_total out = (\<Sum>k = 1 ..< HYBRID_FFT_SIZE div 2. bin_magnitude out k)"

definition weighted_total :: "nat \<Rightarrow> real list \<Rightarrow> real" where
  "weighted_total rate out =
     (\<Sum>k = 1 ..< HYBRID_FFT_SIZE div 2. bin_frequency rate k * bin_magnitude out k)"

definition spec_centroid :: "nat \<Rightarrow> real list \<Rightarrow> real" where
  "spec_centroid rate out =
     (if magnitude_total out = 0 then 0 else weighted_total rate out / magnitude_total out)"

text \<open>
  The frequency that the centroid loop of the code assigns to bin \<open>k\<close>, with the product
  \<^verbatim>\<open>k * g_config.sample_rate\<close> in unsigned arithmetic, and the weighted sum with these
  frequencies.
\<close>

definition computed_frequency :: "nat \<Rightarrow> nat \<Rightarrow> nat \<Rightarrow> real" where
  "computed_frequency size_bits rate k = real (size_t_mult size_bits k rate) / real HYBRID_FFT_SIZE"

definition computed_weighted_total :: "nat \<Rightarrow> nat \<Rightarrow> real list \<Rightarrow> real" where
  "computed_weighted_total size_bits rate out =
     (\<Sum>k = 1 ..< HYBRID_FFT_SIZE div 2. computed_frequency size_bits rate k * bin_magnitude out k)"

text \<open>
  Two analysis cycles on a fresh node without the analog filter: a window that holds one
  impulse of height 1/2 in its first frame, then a silent window. Both are buffers of 512
  frames of 2 channels; \<^verbatim>\<open>size_t\<close> has 32 bits.
\<close>

definition impulse_window :: "real list" where
  "impulse_window = (1 / 2) # replicate 1023 0"

definition silent_window :: "real list" where
  "silent_window = replicate 1024 0"

definition after_impulse :: hybrid_node where
  "after_impulse = dsp_process_fft 32 impulse_window 512 (fresh_node GENERIC unfiltered_config)"

definition after_silence :: hybrid_node where
  "after_silence = dsp_process_fft 32 silent_window 512 after_impulse"



section \<open>Properties of the transport codec\<close>

lemma union_round_trip: "union_i_to_f (union_f_to_i f) = f"
  by (simp add: union_f_to_i_def union_i_to_f_def)

lemma length_encode_sample [simp]:
  "length (encode_sample p d c e i frame) = length frame"
  by (simp add: encode_sample_def)

lemma length_fold_encode_sample [simp]:
  "length (fold (encode_sample p d c e) is frame) = length frame"
  by (induction "is" arbitrary: frame) simp_all

lemma encode_sample_first:
  assumes "8 \<le> length frame"
  shows "encode_sample p d c e 0 frame ! 4 = p"
    and "encode_sample p d c e 0 frame ! 5 = d"
    and "encode_sample p d c e 0 frame ! 6 = c"
    and "encode_sample p d c e 0 frame ! 7 = e"
  using assms by (simp_all add: encode_sample_def)

lemma encode_sample_later:
  assumes "0 < i" and "j < 8"
  shows "encode_sample p d c e i frame ! j = frame ! j"
  using assms by (simp add: encode_sample_def I2S_CHANNELS_def)

lemma fold_encode_sample_slots:
  assumes "8 \<le> length frame" and "0 < n"
  shows "fold (encode_sample p d c e) [0 ..< n] frame ! 4 = p
       \<and> fold (encode_sample p d c e) [0 ..< n] frame ! 5 = d
       \<and> fold (encode_sample p d c e) [0 ..< n] frame ! 6 = c
       \<and> fold (encode_sample p d c e) [0 ..< n] frame ! 7 = e"
  using assms(2)
proof (induction n)
  case 0
  then show ?case by simp
next
  case (Suc n)
  show ?case
  proof (cases "n = 0")
    case True
    with assms(1) show ?thesis
      by (simp add: encode_sample_first)
  next
    case False
    with Suc show ?thesis
      by (simp add: encode_sample_later)
  qed
qed

text \<open>
  C1. For every record \<open>m\<close> and every record \<open>out\<close> that the decoder writes into, decoding
  the frame that \<open>encode_metrics_to_frame\<close> produced from \<open>m\<close> gives back \<open>phi_phase\<close>,
  \<open>phi_depth\<close> and \<open>coherence\<close> of \<open>m\<close> bit for bit, whatever sequence number \<open>out\<close>
  carries; and when \<open>out\<close> carries the same sequence number as \<open>m\<close>, the fourth slot
  arrives in \<open>criticality\<close> for an even sequence number and in \<open>ici\<close> for an odd one,
  again bit for bit. The frame is the transmit buffer of
  \<open>I2S_BUFFER_SIZE * I2S_CHANNELS\<close> words and may hold anything beforehand.
\<close>

theorem codec_round_trip:
  assumes "length frame = I2S_BUFFER_SIZE * I2S_CHANNELS"
  shows "ConsciousnessMetrics.phi_phase (decode_metrics_from_frame (encode_metrics_to_frame frame m) out) = ConsciousnessMetrics.phi_phase m
       \<and> ConsciousnessMetrics.phi_depth (decode_metrics_from_frame (encode_metrics_to_frame frame m) out) = ConsciousnessMetrics.phi_depth m
       \<and> ConsciousnessMetrics.coherence (decode_metrics_from_frame (encode_metrics_to_frame frame m) out) = ConsciousnessMetrics.coherence m
       \<and> (sequence out = sequence m \<longrightarrow>
            (if sequence m mod 2 = 0
             then ConsciousnessMetrics.criticality (decode_metrics_from_frame (encode_metrics_to_frame frame m) out)
                    = ConsciousnessMetrics.criticality m
             else ConsciousnessMetrics.ici (decode_metrics_from_frame (encode_metrics_to_frame frame m) out)
                    = ConsciousnessMetrics.ici m))"
proof -
  have len: "8 \<le> length frame"
    using assms(1) by (simp add: I2S_BUFFER_SIZE_def I2S_CHANNELS_def)
  have pos: "0 < I2S_BUFFER_SIZE"
    by (simp add: I2S_BUFFER_SIZE_def)
  note slots = fold_encode_sample_slots [OF len pos]
  show ?thesis
    by (simp add: decode_metrics_from_frame_def encode_metrics_to_frame_def Let_def
        slots union_round_trip)
qed

theorem codec_round_trip_witness:
  "length (replicate 4096 (0 :: int32_t)) = I2S_BUFFER_SIZE * I2S_CHANNELS
   \<and> ConsciousnessMetrics.criticality (decode_metrics_from_frame
         (encode_metrics_to_frame (replicate 4096 0) (test_metrics 0))
         (received_metrics 0)) = 0x3F800000
   \<and> ConsciousnessMetrics.ici (decode_metrics_from_frame
         (encode_metrics_to_frame (replicate 4096 0) (test_metrics 1))
         (received_metrics 1)) = 0x42C80000
   \<and> sequence (received_metrics 1) \<noteq> sequence (test_metrics 0)
   \<and> ConsciousnessMetrics.phi_phase (decode_metrics_from_frame
         (encode_metrics_to_frame (replicate 4096 0) (test_metrics 0))
         (received_metrics 1)) = 0x40490FD0
   \<and> ConsciousnessMetrics.phi_depth (decode_metrics_from_frame
         (encode_metrics_to_frame (replicate 4096 0) (test_metrics 0))
         (received_metrics 1)) = 0x3F000000
   \<and> ConsciousnessMetrics.coherence (decode_metrics_from_frame
         (encode_metrics_to_frame (replicate 4096 0) (test_metrics 0))
         (received_metrics 1)) = 0x3F733333"
proof -
  have len: "length (replicate 4096 (0 :: int32_t)) = I2S_BUFFER_SIZE * I2S_CHANNELS"
    by (simp add: I2S_BUFFER_SIZE_def I2S_CHANNELS_def)
  have seqs: "sequence (received_metrics 0) = sequence (test_metrics 0)"
    "sequence (received_metrics 1) = sequence (test_metrics 1)"
    "sequence (received_metrics 1) \<noteq> sequence (test_metrics 0)"
    by (simp_all add: test_metrics_def received_metrics_def)
  show ?thesis
    using codec_round_trip [OF len, of "test_metrics 0" "received_metrics 0"]
      codec_round_trip [OF len, of "test_metrics 1" "received_metrics 1"]
      codec_round_trip [OF len, of "test_metrics 0" "received_metrics 1"] len seqs
    by (simp add: test_metrics_def)
qed

section \<open>Properties of the sensor read\<close>

lemma isr_channel_running:
  "phi_sensor.g_running (snd (isr_channel analogRead ch ds)) = phi_sensor.g_running (snd ds)"
  by (cases ds) (simp add: isr_channel_def apply_filter_def Let_def split: prod.split)

lemma fold_isr_channel_running:
  "phi_sensor.g_running (snd (fold (isr_channel analogRead) chs ds))
     = phi_sensor.g_running (snd ds)"
  by (induction chs arbitrary: ds) (simp_all add: isr_channel_running)

text \<open>A timer tick on a running sensor leaves a sample pending and the sensor running.\<close>

lemma sample_timer_isr_ready:
  assumes "phi_sensor.g_running s"
  shows "g_data_ready (sample_timer_isr now_us analogRead data0 s)"
    and "phi_sensor.g_running (sample_timer_isr now_us analogRead data0 s)"
  using assms
    fold_isr_channel_running [of analogRead "[0 ..< PHI_SENSOR_CHANNELS]"
      "(data0\<lparr>PhiSensorData.timestamp_us := now_us, sample_number := g_sample_counter s\<rparr>,
        s\<lparr>g_last_sample_us := now_us, g_sample_counter := g_sample_counter s + 1\<rparr>)"]
  by (simp_all add: sample_timer_isr_def Let_def case_prod_beta)

text \<open>A tick on a stopped sensor does nothing; starting and stopping keep the pending flag.\<close>

lemma sample_timer_isr_stopped:
  "\<not> phi_sensor.g_running s \<Longrightarrow> sample_timer_isr now_us analogRead data0 s = s"
  by (simp add: sample_timer_isr_def)

lemma start_stop_keep_pending:
  "g_data_ready (snd (phi_sensor_start pf now_us s)) = g_data_ready s"
  "g_data_ready (snd (phi_sensor_stop s)) = g_data_ready s"
  by (simp_all add: phi_sensor_start_def phi_sensor_stop_def Let_def)

lemma phi_started_running: "phi_sensor.g_running phi_started"
  by (simp add: phi_started_def phi_sensor_start_def phi_sensor_init_def
      phi_platform_adc_init_def Let_def phi_program_start_def)

text \<open>
  C10. With a non-null pointer, \<open>phi_sensor_read\<close> succeeds exactly when the sensor is
  running and a sample is pending (\<open>g_data_ready\<close>: set by the timer handler on a running
  sensor, cleared only by a successful read). A successful read hands out
  \<open>g_current_data\<close> and clears the flag, so a second read right after it fails and leaves
  the caller's structure as it was; a failing read changes nothing at all.
\<close>

theorem phi_sensor_read_pending:
  "(fst (phi_sensor_read (Some d) s) \<longleftrightarrow> phi_sensor.g_running s \<and> g_data_ready s)
   \<and> (phi_sensor.g_running s \<and> g_data_ready s \<longrightarrow>
        phi_sensor_read (Some d) s = (True, Some (g_current_data s), s\<lparr>g_data_ready := False\<rparr>)
        \<and> phi_sensor_read (Some d') (s\<lparr>g_data_ready := False\<rparr>)
            = (False, Some d', s\<lparr>g_data_ready := False\<rparr>))
   \<and> (\<not> (phi_sensor.g_running s \<and> g_data_ready s) \<longrightarrow>
        phi_sensor_read (Some d) s = (False, Some d, s))
   \<and> (phi_sensor.g_running s \<longrightarrow>
        g_data_ready (sample_timer_isr now_us analogRead data0 s)
        \<and> phi_sensor.g_running (sample_timer_isr now_us analogRead data0 s))"
  by (simp add: phi_sensor_read_def sample_timer_isr_ready)

theorem phi_sensor_read_pending_witness:
  "phi_sensor.g_running phi_sampled \<and> g_data_ready phi_sampled
   \<and> phi_sensor_read (Some phi_zero_data) phi_sampled
       = (True, Some (g_current_data phi_sampled), phi_sampled\<lparr>g_data_ready := False\<rparr>)
   \<and> phi_sensor_read (Some phi_zero_data) (phi_sampled\<lparr>g_data_ready := False\<rparr>)
       = (False, Some phi_zero_data, phi_sampled\<lparr>g_data_ready := False\<rparr>)
   \<and> \<not> g_data_ready phi_started
   \<and> phi_sensor_read (Some phi_zero_data) phi_started = (False, Some phi_zero_data, phi_started)"
proof -
  have run: "phi_sensor.g_running phi_started"
    by (rule phi_started_running)
  have idle: "\<not> g_data_ready phi_started"
    by (simp add: phi_started_def phi_sensor_start_def phi_sensor_init_def
        phi_platform_adc_init_def Let_def phi_program_start_def)
  have tick: "phi_sensor.g_running phi_sampled \<and> g_data_ready phi_sampled"
    using phi_sensor_read_pending [of phi_zero_data phi_started phi_zero_data 33333
        "\<lambda>pin. 2048" phi_zero_data] run
    by (simp add: phi_sampled_def)
  show ?thesis
    using tick idle
      phi_sensor_read_pending [of phi_zero_data phi_sampled phi_zero_data 0 "\<lambda>pin. 0" phi_zero_data]
      phi_sensor_read_pending [of phi_zero_data phi_started phi_zero_data 0 "\<lambda>pin. 0" phi_zero_data]
    by simp
qed

section \<open>Properties of the hybrid node: guards and operator calls\<close>

lemmas upd_defs = upd_analog_def upd_dsp_def upd_control_def upd_safety_def
  upd_calibration_def upd_stats_def

lemma fresh_running: "g_running (fresh_node pf c)"
  by (simp add: fresh_node_def hybrid_node_start_def hybrid_node_init_def Let_def
      platform_adc_init_def platform_dac_init_def upd_defs)

lemma program_start_stopped: "\<not> g_running program_start"
  by (simp add: program_start_def)

text \<open>
  On every gain that is a number the guard of \<open>hybrid_node_set_preamp_gain\<close> decides as
  the range \<open>1 \<le> g \<le> 40\<close> does: the call succeeds exactly inside the range, a failing
  call changes nothing, and a successful call stores the gain.
\<close>

lemma set_preamp_gain_number:
  "(fst (hybrid_node_set_preamp_gain (Num r) s)
      \<longleftrightarrow> ANALOG_PREAMP_GAIN_MIN \<le> r \<and> r \<le> ANALOG_PREAMP_GAIN_MAX)
   \<and> (\<not> fst (hybrid_node_set_preamp_gain (Num r) s)
        \<longrightarrow> snd (hybrid_node_set_preamp_gain (Num r) s) = s)
   \<and> (fst (hybrid_node_set_preamp_gain (Num r) s)
        \<longrightarrow> preamp_gain (g_config (snd (hybrid_node_set_preamp_gain (Num r) s))) = Num r)
   \<and> ANALOG_PREAMP_GAIN_MIN = 1 \<and> ANALOG_PREAMP_GAIN_MAX = 40"
  by (auto simp add: hybrid_node_set_preamp_gain_def ANALOG_PREAMP_GAIN_MIN_def
      ANALOG_PREAMP_GAIN_MAX_def)

lemma set_preamp_gain_number_examples:
  "fst (hybrid_node_set_preamp_gain (Num 10) (fresh_node GENERIC self_test_config))
   \<and> \<not> fst (hybrid_node_set_preamp_gain (Num (1 / 2)) (fresh_node GENERIC self_test_config))
   \<and> snd (hybrid_node_set_preamp_gain (Num (1 / 2)) (fresh_node GENERIC self_test_config))
       = fresh_node GENERIC self_test_config
   \<and> \<not> fst (hybrid_node_set_preamp_gain (Num 41) (fresh_node GENERIC self_test_config))
   \<and> snd (hybrid_node_set_preamp_gain (Num 41) (fresh_node GENERIC self_test_config))
       = fresh_node GENERIC self_test_config"
  using set_preamp_gain_number [of 10 "fresh_node GENERIC self_test_config"]
    set_preamp_gain_number [of "1 / 2" "fresh_node GENERIC self_test_config"]
    set_preamp_gain_number [of 41 "fresh_node GENERIC self_test_config"]
  by simp

text \<open>
  C8. \<open>hybrid_node_set_preamp_gain g\<close> is to succeed if and only if \<open>1 \<le> g \<le> 40\<close>, for
  every gain \<open>g\<close>. The code rejects a gain by the two comparisons
  \<^verbatim>\<open>gain < ANALOG_PREAMP_GAIN_MIN || gain > ANALOG_PREAMP_GAIN_MAX\<close>, and both are false
  for NaN: on every state the call with NaN returns true and stores NaN as the configured
  gain, although NaN is not inside the range (\<open>1 \<le> NaN\<close> and \<open>NaN \<le> 40\<close> are false as
  well). The stored NaN then stays: the automatic reduction on overload leaves it NaN.
\<close>

theorem set_preamp_gain_accepts_nan:
  "fst (hybrid_node_set_preamp_gain NaN s)
   \<and> preamp_gain (g_config (snd (hybrid_node_set_preamp_gain NaN s))) = NaN
   \<and> \<not> (c_less_eq (Num ANALOG_PREAMP_GAIN_MIN) NaN \<and> c_less_eq NaN (Num ANALOG_PREAMP_GAIN_MAX))
   \<and> preamp_gain (g_config (safety_overload (snd (hybrid_node_set_preamp_gain NaN s)))) = NaN"
  by (simp add: hybrid_node_set_preamp_gain_def safety_overload_def Let_def upd_defs)

text \<open>
  C9. While the node is running, \<open>hybrid_node_start\<close> returns false and leaves every
  static as it was; while it is not running, \<open>hybrid_node_stop\<close> returns false (and
  changes nothing either); while it is running, \<open>hybrid_node_calibrate\<close> returns false,
  and neither the statics nor the caller's structure change.
\<close>

theorem state_guards:
  "(g_running s \<longrightarrow> hybrid_node_start s = (False, s))
   \<and> (\<not> g_running s \<longrightarrow> hybrid_node_stop pf s = (False, s))
   \<and> (g_running s \<longrightarrow>
        hybrid_node_calibrate pf micros0 micros1 now cal s = (False, cal, s))"
  by (simp add: hybrid_node_start_def hybrid_node_stop_def hybrid_node_calibrate_def
      split: option.split)

theorem state_guards_witness:
  "g_running (fresh_node GENERIC self_test_config)
   \<and> hybrid_node_start (fresh_node GENERIC self_test_config)
       = (False, fresh_node GENERIC self_test_config)
   \<and> hybrid_node_calibrate GENERIC 0 0 0 (Some (calibration zero_status))
        (fresh_node GENERIC self_test_config)
       = (False, Some (calibration zero_status), fresh_node GENERIC self_test_config)
   \<and> \<not> g_running program_start
   \<and> hybrid_node_stop GENERIC program_start = (False, program_start)"
  using state_guards [of "fresh_node GENERIC self_test_config" GENERIC 0 0 0
      "Some (calibration zero_status)"]
    state_guards [of program_start GENERIC 0 0 0 None]
    fresh_running [of GENERIC self_test_config] program_start_stopped
  by simp

text \<open>
  C6. \<open>hybrid_node_emergency_shutdown\<close> on a running node, whatever its safety status
  was: the call returns true, the node is no longer running (neither \<open>g_running\<close> nor
  the status flag \<open>is_running\<close>), both control voltages \<open>cv1\<close> and \<open>cv2\<close> are 0, the
  safety status is \<open>HYBRID_SAFETY_FAULT\<close>, and the DAC buffer holds zeros only.
\<close>

theorem emergency_shutdown_running:
  assumes "g_running s"
  shows "fst (hybrid_node_emergency_shutdown pf reason s)
       \<and> \<not> g_running (snd (hybrid_node_emergency_shutdown pf reason s))
       \<and> \<not> is_running (g_status (snd (hybrid_node_emergency_shutdown pf reason s)))
       \<and> cv1 (control (g_status (snd (hybrid_node_emergency_shutdown pf reason s)))) = 0
       \<and> cv2 (control (g_status (snd (hybrid_node_emergency_shutdown pf reason s)))) = 0
       \<and> status (safety (g_status (snd (hybrid_node_emergency_shutdown pf reason s))))
           = HYBRID_SAFETY_FAULT
       \<and> set (g_dac_buffer (snd (hybrid_node_emergency_shutdown pf reason s))) \<subseteq> {0}"
  using assms
  by (auto simp add: hybrid_node_emergency_shutdown_def hybrid_node_stop_def Let_def upd_defs)

theorem emergency_shutdown_running_witness:
  "g_running (fresh_node GENERIC self_test_config)
   \<and> fst (hybrid_node_emergency_shutdown GENERIC ''operator''
         (fresh_node GENERIC self_test_config))
   \<and> \<not> g_running (snd (hybrid_node_emergency_shutdown GENERIC ''operator''
         (fresh_node GENERIC self_test_config)))
   \<and> status (safety (g_status (snd (hybrid_node_emergency_shutdown GENERIC ''operator''
         (fresh_node GENERIC self_test_config))))) = HYBRID_SAFETY_FAULT"
proof -
  have run: "g_running (fresh_node GENERIC self_test_config)"
    by (rule fresh_running)
  show ?thesis
    using emergency_shutdown_running [OF run, of GENERIC "''operator''"] run
    by simp
qed

section \<open>Properties of the hybrid node: the blocks of a cycle\<close>

lemma emergency_shutdown_fields:
  "g_config (snd (hybrid_node_emergency_shutdown pf reason s)) = g_config s"
  "cv1 (control (g_status (snd (hybrid_node_emergency_shutdown pf reason s)))) = 0"
  "cv2 (control (g_status (snd (hybrid_node_emergency_shutdown pf reason s)))) = 0"
  "overload_count (safety (g_status (snd (hybrid_node_emergency_shutdown pf reason s))))
     = overload_count (safety (g_status s))"
  "analog (g_status (snd (hybrid_node_emergency_shutdown pf reason s))) = analog (g_status s)"
  "dsp (g_status (snd (hybrid_node_emergency_shutdown pf reason s))) = dsp (g_status s)"
  "g_adc_buffer (snd (hybrid_node_emergency_shutdown pf reason s)) = g_adc_buffer s"
  "g_fft_input (snd (hybrid_node_emergency_shutdown pf reason s)) = g_fft_input s"
  "g_fft_output (snd (hybrid_node_emergency_shutdown pf reason s)) = g_fft_output s"
  "g_prev_spectral_centroid (snd (hybrid_node_emergency_shutdown pf reason s)) = g_prev_spectral_centroid s"
  "hpf_state (snd (hybrid_node_emergency_shutdown pf reason s)) = hpf_state s"
  "lpf_state (snd (hybrid_node_emergency_shutdown pf reason s)) = lpf_state s"
  by (simp_all add: hybrid_node_emergency_shutdown_def hybrid_node_stop_def Let_def upd_defs)

lemma safety_overload_frame:
  "g_status (safety_overload s)
     = (g_status s)\<lparr>safety := (safety (g_status s))\<lparr>overload_count :=
          (if is_overloaded (analog (g_status s)) then overload_count (safety (g_status s)) + 1
           else overload_count (safety (g_status s)))\<rparr>\<rparr>"
  "g_config (safety_overload s)
     = (g_config s)\<lparr>preamp_gain :=
         (if is_overloaded (analog (g_status s)) \<and> c_greater (preamp_gain (g_config s)) (Num ANALOG_PREAMP_GAIN_MIN)
          then c_times (preamp_gain (g_config s)) (Num (9 / 10)) else preamp_gain (g_config s))\<rparr>"
  "g_adc_buffer (safety_overload s) = g_adc_buffer s"
  "g_fft_input (safety_overload s) = g_fft_input s"
  "g_fft_output (safety_overload s) = g_fft_output s"
  "g_prev_spectral_centroid (safety_overload s) = g_prev_spectral_centroid s"
  "hpf_state (safety_overload s) = hpf_state s"
  "lpf_state (safety_overload s) = lpf_state s"
  "g_running (safety_overload s) = g_running s"
  by (simp_all add: safety_overload_def Let_def upd_defs)

lemma safety_thermal_frame:
  "g_config (safety_thermal pf temp_raw s) = g_config s"
  "analog (g_status (safety_thermal pf temp_raw s)) = analog (g_status s)"
  "dsp (g_status (safety_thermal pf temp_raw s)) = dsp (g_status s)"
  "overload_count (safety (g_status (safety_thermal pf temp_raw s))) = overload_count (safety (g_status s))"
  "g_adc_buffer (safety_thermal pf temp_raw s) = g_adc_buffer s"
  "g_fft_input (safety_thermal pf temp_raw s) = g_fft_input s"
  "g_fft_output (safety_thermal pf temp_raw s) = g_fft_output s"
  "g_prev_spectral_centroid (safety_thermal pf temp_raw s) = g_prev_spectral_centroid s"
  "hpf_state (safety_thermal pf temp_raw s) = hpf_state s"
  "lpf_state (safety_thermal pf temp_raw s) = lpf_state s"
  by (simp_all add: safety_thermal_def Let_def upd_defs emergency_shutdown_fields)

lemma safety_clamp_frame:
  "g_config (safety_clamp s) = g_config s"
  "analog (g_status (safety_clamp s)) = analog (g_status s)"
  "dsp (g_status (safety_clamp s)) = dsp (g_status s)"
  "control (g_status (safety_clamp s)) = control (g_status s)"
  "overload_count (safety (g_status (safety_clamp s))) = overload_count (safety (g_status s))"
  "g_adc_buffer (safety_clamp s) = g_adc_buffer s"
  "g_fft_input (safety_clamp s) = g_fft_input s"
  "g_fft_output (safety_clamp s) = g_fft_output s"
  "g_prev_spectral_centroid (safety_clamp s) = g_prev_spectral_centroid s"
  "hpf_state (safety_clamp s) = hpf_state s"
  "lpf_state (safety_clamp s) = lpf_state s"
  "g_running (safety_clamp s) = g_running s"
  by (simp_all add: safety_clamp_def upd_defs)

lemma safety_check_frame:
  "analog (g_status (safety_check pf temp_raw s)) = analog (g_status s)"
  "dsp (g_status (safety_check pf temp_raw s)) = dsp (g_status s)"
  "g_adc_buffer (safety_check pf temp_raw s) = g_adc_buffer s"
  "g_fft_input (safety_check pf temp_raw s) = g_fft_input s"
  "g_fft_output (safety_check pf temp_raw s) = g_fft_output s"
  "g_prev_spectral_centroid (safety_check pf temp_raw s) = g_prev_spectral_centroid s"
  "hpf_state (safety_check pf temp_raw s) = hpf_state s"
  "lpf_state (safety_check pf temp_raw s) = lpf_state s"
  by (simp_all add: safety_check_def safety_clamp_frame safety_thermal_frame safety_overload_frame)


lemma safety_check_preamp_gain:
  "g_config (safety_check pf temp_raw s)
     = (g_config s)\<lparr>preamp_gain :=
         (if is_overloaded (analog (g_status s)) \<and> c_greater (preamp_gain (g_config s)) (Num ANALOG_PREAMP_GAIN_MIN)
          then c_times (preamp_gain (g_config s)) (Num (9 / 10)) else preamp_gain (g_config s))\<rparr>"
  by (simp add: safety_check_def safety_clamp_frame safety_thermal_frame safety_overload_frame)

lemma safety_check_overload_count:
  "overload_count (safety (g_status (safety_check pf temp_raw s))) =
     (if is_overloaded (analog (g_status s))
      then overload_count (safety (g_status s)) + 1 else overload_count (safety (g_status s)))"
  by (simp add: safety_check_def safety_clamp_frame safety_thermal_frame safety_overload_frame)


lemma safety_overload_status:
  "status (safety (g_status (safety_overload s))) = status (safety (g_status s))"
  "control (g_status (safety_overload s)) = control (g_status s)"
  "enable_voltage_clamp (g_config (safety_overload s)) = enable_voltage_clamp (g_config s)"
  "enable_thermal_monitor (g_config (safety_overload s)) = enable_thermal_monitor (g_config s)"
  by (simp_all add: safety_overload_frame)

lemma safety_thermal_status:
  "status (safety (g_status (safety_thermal pf temp_raw s))) =
     (if pf = TEENSY \<and> enable_thermal_monitor (g_config s)
      then if real_of_int temp_raw * (1 / 10) > SAFETY_TEMP_CRITICAL then HYBRID_SAFETY_TEMP_CRITICAL
           else if real_of_int temp_raw * (1 / 10) > SAFETY_TEMP_WARNING then HYBRID_SAFETY_TEMP_WARNING
           else status (safety (g_status s))
      else status (safety (g_status s)))"
  "control (g_status (safety_thermal pf temp_raw s)) =
     (if pf = TEENSY \<and> enable_thermal_monitor (g_config s)
         \<and> real_of_int temp_raw * (1 / 10) > SAFETY_TEMP_CRITICAL
      then (control (g_status s))\<lparr>cv1 := 0, cv2 := 0\<rparr>
      else control (g_status s))"
  by (simp_all add: safety_thermal_def Let_def upd_defs hybrid_node_emergency_shutdown_def
      hybrid_node_stop_def)

lemma safety_clamp_status:
  "status (safety (g_status (safety_clamp s))) =
     (if enable_voltage_clamp (g_config s)
         \<and> (cv1 (control (g_status s)) \<ge> SAFETY_VOLTAGE_MAX
            \<or> cv2 (control (g_status s)) \<ge> SAFETY_VOLTAGE_MAX)
      then HYBRID_SAFETY_VOLTAGE_CLAMP else status (safety (g_status s)))"
  by (auto simp add: safety_clamp_def upd_defs)

lemma safety_check_status:
  "status (safety (g_status (safety_check pf temp_raw s))) =
     (if pf = TEENSY \<and> enable_thermal_monitor (g_config s)
          \<and> real_of_int temp_raw * (1 / 10) > SAFETY_TEMP_CRITICAL
      then HYBRID_SAFETY_TEMP_CRITICAL
      else if enable_voltage_clamp (g_config s)
          \<and> (cv1 (control (g_status s)) \<ge> SAFETY_VOLTAGE_MAX
             \<or> cv2 (control (g_status s)) \<ge> SAFETY_VOLTAGE_MAX)
      then HYBRID_SAFETY_VOLTAGE_CLAMP
      else if pf = TEENSY \<and> enable_thermal_monitor (g_config s)
          \<and> real_of_int temp_raw * (1 / 10) > SAFETY_TEMP_WARNING
      then HYBRID_SAFETY_TEMP_WARNING
      else status (safety (g_status s)))"
  by (auto simp add: safety_check_def safety_clamp_status safety_thermal_status safety_thermal_frame
      safety_overload_status SAFETY_VOLTAGE_MAX_def SAFETY_TEMP_CRITICAL_def SAFETY_TEMP_WARNING_def)

lemma filter_stage_frame:
  "g_config (snd (hpf_stage hc idx ch bs)) = g_config (snd bs)"
  "g_status (snd (hpf_stage hc idx ch bs)) = g_status (snd bs)"
  "g_fft_input (snd (hpf_stage hc idx ch bs)) = g_fft_input (snd bs)"
  "g_fft_output (snd (hpf_stage hc idx ch bs)) = g_fft_output (snd bs)"
  "g_prev_spectral_centroid (snd (hpf_stage hc idx ch bs)) = g_prev_spectral_centroid (snd bs)"
  "g_running (snd (hpf_stage hc idx ch bs)) = g_running (snd bs)"
  "g_config (snd (lpf_stage lc idx ch bs)) = g_config (snd bs)"
  "g_status (snd (lpf_stage lc idx ch bs)) = g_status (snd bs)"
  "g_fft_input (snd (lpf_stage lc idx ch bs)) = g_fft_input (snd bs)"
  "g_fft_output (snd (lpf_stage lc idx ch bs)) = g_fft_output (snd bs)"
  "g_prev_spectral_centroid (snd (lpf_stage lc idx ch bs)) = g_prev_spectral_centroid (snd bs)"
  "g_running (snd (lpf_stage lc idx ch bs)) = g_running (snd bs)"
  by (simp_all add: hpf_stage_def lpf_stage_def Let_def case_prod_beta)

lemma filter_sample_frame:
  "g_config (snd (filter_sample hc lc nch i ch bs)) = g_config (snd bs)
   \<and> g_status (snd (filter_sample hc lc nch i ch bs)) = g_status (snd bs)
   \<and> g_fft_input (snd (filter_sample hc lc nch i ch bs)) = g_fft_input (snd bs)
   \<and> g_fft_output (snd (filter_sample hc lc nch i ch bs)) = g_fft_output (snd bs)
   \<and> g_prev_spectral_centroid (snd (filter_sample hc lc nch i ch bs))
       = g_prev_spectral_centroid (snd bs)
   \<and> g_running (snd (filter_sample hc lc nch i ch bs)) = g_running (snd bs)"
  by (simp add: filter_sample_def Let_def filter_stage_frame)

lemma fold_filter_sample_frame:
  "g_config (snd (fold (filter_sample hc lc nch i) chs bs)) = g_config (snd bs)
   \<and> g_status (snd (fold (filter_sample hc lc nch i) chs bs)) = g_status (snd bs)
   \<and> g_fft_input (snd (fold (filter_sample hc lc nch i) chs bs)) = g_fft_input (snd bs)
   \<and> g_fft_output (snd (fold (filter_sample hc lc nch i) chs bs)) = g_fft_output (snd bs)
   \<and> g_prev_spectral_centroid (snd (fold (filter_sample hc lc nch i) chs bs))
       = g_prev_spectral_centroid (snd bs)
   \<and> g_running (snd (fold (filter_sample hc lc nch i) chs bs)) = g_running (snd bs)"
  by (induction chs arbitrary: bs) (simp_all add: filter_sample_frame)

lemma fold_frames_filter_frame:
  "g_config (snd (fold (\<lambda>i. fold (filter_sample hc lc nch i) chs) is bs)) = g_config (snd bs)
   \<and> g_status (snd (fold (\<lambda>i. fold (filter_sample hc lc nch i) chs) is bs)) = g_status (snd bs)
   \<and> g_fft_input (snd (fold (\<lambda>i. fold (filter_sample hc lc nch i) chs) is bs))
       = g_fft_input (snd bs)
   \<and> g_fft_output (snd (fold (\<lambda>i. fold (filter_sample hc lc nch i) chs) is bs))
       = g_fft_output (snd bs)
   \<and> g_prev_spectral_centroid (snd (fold (\<lambda>i. fold (filter_sample hc lc nch i) chs) is bs))
       = g_prev_spectral_centroid (snd bs)
   \<and> g_running (snd (fold (\<lambda>i. fold (filter_sample hc lc nch i) chs) is bs))
       = g_running (snd bs)"
  by (induction "is" arbitrary: bs) (simp_all add: fold_filter_sample_frame)

lemma apply_analog_filter_frame:
  "g_config (snd (apply_analog_filter buffer frames s)) = g_config s"
  "g_status (snd (apply_analog_filter buffer frames s)) = g_status s"
  "g_fft_input (snd (apply_analog_filter buffer frames s)) = g_fft_input s"
  "g_fft_output (snd (apply_analog_filter buffer frames s)) = g_fft_output s"
  "g_prev_spectral_centroid (snd (apply_analog_filter buffer frames s))
     = g_prev_spectral_centroid s"
  "g_running (snd (apply_analog_filter buffer frames s)) = g_running s"
  using fold_frames_filter_frame [of _ _ "adc_channels (g_config s)" "[0 ..< adc_channels (g_config s)]"
      "[0 ..< frames]" "(buffer, s)"]
  by (simp_all add: apply_analog_filter_def Let_def)

lemma process_condition_frame:
  "g_config (process_condition inp frames s) = g_config s"
  "g_status (process_condition inp frames s) = g_status s"
  "g_fft_input (process_condition inp frames s) = g_fft_input s"
  "g_fft_output (process_condition inp frames s) = g_fft_output s"
  "g_prev_spectral_centroid (process_condition inp frames s) = g_prev_spectral_centroid s"
  "g_running (process_condition inp frames s) = g_running s"
  by (simp_all add: process_condition_def Let_def case_prod_beta apply_analog_filter_frame)

lemma process_analog_metrics_frame:
  "g_config (process_analog_metrics frames s) = g_config s"
  "safety (g_status (process_analog_metrics frames s)) = safety (g_status s)"
  "control (g_status (process_analog_metrics frames s)) = control (g_status s)"
  "dsp (g_status (process_analog_metrics frames s)) = dsp (g_status s)"
  "g_adc_buffer (process_analog_metrics frames s) = g_adc_buffer s"
  "g_fft_input (process_analog_metrics frames s) = g_fft_input s"
  "g_fft_output (process_analog_metrics frames s) = g_fft_output s"
  "g_prev_spectral_centroid (process_analog_metrics frames s) = g_prev_spectral_centroid s"
  "hpf_state (process_analog_metrics frames s) = hpf_state s"
  "lpf_state (process_analog_metrics frames s) = lpf_state s"
  "g_running (process_analog_metrics frames s) = g_running s"
  by (simp_all add: process_analog_metrics_def Let_def case_prod_beta upd_defs)

lemma spectral_update_frame:
  "g_config (spectral_update size_bits s) = g_config s"
  "safety (g_status (spectral_update size_bits s)) = safety (g_status s)"
  "analog (g_status (spectral_update size_bits s)) = analog (g_status s)"
  "control (g_status (spectral_update size_bits s)) = control (g_status s)"
  "g_adc_buffer (spectral_update size_bits s) = g_adc_buffer s"
  "g_fft_input (spectral_update size_bits s) = g_fft_input s"
  "g_fft_output (spectral_update size_bits s) = g_fft_output s"
  "hpf_state (spectral_update size_bits s) = hpf_state s"
  "lpf_state (spectral_update size_bits s) = lpf_state s"
  "g_running (spectral_update size_bits s) = g_running s"
  by (simp_all add: spectral_update_def Let_def case_prod_beta upd_defs)

lemma dsp_process_fft_frame:
  "g_config (dsp_process_fft size_bits input frames s) = g_config s"
  "safety (g_status (dsp_process_fft size_bits input frames s)) = safety (g_status s)"
  "analog (g_status (dsp_process_fft size_bits input frames s)) = analog (g_status s)"
  "control (g_status (dsp_process_fft size_bits input frames s)) = control (g_status s)"
  "g_adc_buffer (dsp_process_fft size_bits input frames s) = g_adc_buffer s"
  "hpf_state (dsp_process_fft size_bits input frames s) = hpf_state s"
  "lpf_state (dsp_process_fft size_bits input frames s) = lpf_state s"
  "g_running (dsp_process_fft size_bits input frames s) = g_running s"
  by (simp_all add: dsp_process_fft_def Let_def upd_defs spectral_update_frame)

lemma dsp_calculate_frame:
  "g_config (dsp_calculate_ici s) = g_config s"
  "safety (g_status (dsp_calculate_ici s)) = safety (g_status s)"
  "analog (g_status (dsp_calculate_ici s)) = analog (g_status s)"
  "control (g_status (dsp_calculate_ici s)) = control (g_status s)"
  "g_adc_buffer (dsp_calculate_ici s) = g_adc_buffer s"
  "g_fft_input (dsp_calculate_ici s) = g_fft_input s"
  "g_fft_output (dsp_calculate_ici s) = g_fft_output s"
  "g_prev_spectral_centroid (dsp_calculate_ici s) = g_prev_spectral_centroid s"
  "hpf_state (dsp_calculate_ici s) = hpf_state s"
  "lpf_state (dsp_calculate_ici s) = lpf_state s"
  "g_config (dsp_calculate_coherence s) = g_config s"
  "safety (g_status (dsp_calculate_coherence s)) = safety (g_status s)"
  "analog (g_status (dsp_calculate_coherence s)) = analog (g_status s)"
  "control (g_status (dsp_calculate_coherence s)) = control (g_status s)"
  "g_adc_buffer (dsp_calculate_coherence s) = g_adc_buffer s"
  "g_fft_input (dsp_calculate_coherence s) = g_fft_input s"
  "g_fft_output (dsp_calculate_coherence s) = g_fft_output s"
  "g_prev_spectral_centroid (dsp_calculate_coherence s) = g_prev_spectral_centroid s"
  "hpf_state (dsp_calculate_coherence s) = hpf_state s"
  "lpf_state (dsp_calculate_coherence s) = lpf_state s"
  "g_running (dsp_calculate_ici s) = g_running s"
  "g_running (dsp_calculate_coherence s) = g_running s"
  by (simp_all add: dsp_calculate_ici_def dsp_calculate_coherence_def Let_def case_prod_beta upd_defs
      del: upt_rec_numeral)

lemma process_dsp_frame:
  "g_config (process_dsp size_bits start_us frames s) = g_config s"
  "safety (g_status (process_dsp size_bits start_us frames s)) = safety (g_status s)"
  "analog (g_status (process_dsp size_bits start_us frames s)) = analog (g_status s)"
  "control (g_status (process_dsp size_bits start_us frames s)) = control (g_status s)"
  "g_adc_buffer (process_dsp size_bits start_us frames s) = g_adc_buffer s"
  "hpf_state (process_dsp size_bits start_us frames s) = hpf_state s"
  "lpf_state (process_dsp size_bits start_us frames s) = lpf_state s"
  "g_running (process_dsp size_bits start_us frames s) = g_running s"
  by (simp_all add: process_dsp_def Let_def upd_defs dsp_process_fft_frame dsp_calculate_frame)

lemma cv_blocks_frame:
  "g_config (cv_modulate s) = g_config s"
  "analog (g_status (cv_modulate s)) = analog (g_status s)"
  "dsp (g_status (cv_modulate s)) = dsp (g_status s)"
  "safety (g_status (cv_modulate s)) = safety (g_status s)"
  "g_config (cv_clamp s) = g_config s"
  "analog (g_status (cv_clamp s)) = analog (g_status s)"
  "dsp (g_status (cv_clamp s)) = dsp (g_status s)"
  "safety (g_status (cv_clamp s)) = safety (g_status s)"
  "g_config (cv_telemetry s) = g_config s"
  "analog (g_status (cv_telemetry s)) = analog (g_status s)"
  "dsp (g_status (cv_telemetry s)) = dsp (g_status s)"
  "overload_count (safety (g_status (cv_telemetry s))) = overload_count (safety (g_status s))"
  "status (safety (g_status (cv_telemetry s))) = status (safety (g_status s))"
  by (simp_all add: cv_modulate_def cv_clamp_def cv_telemetry_def Let_def upd_defs)

lemma cv_blocks_statics:
  "g_adc_buffer (cv_modulate s) = g_adc_buffer s"
  "g_fft_input (cv_modulate s) = g_fft_input s"
  "g_fft_output (cv_modulate s) = g_fft_output s"
  "g_prev_spectral_centroid (cv_modulate s) = g_prev_spectral_centroid s"
  "hpf_state (cv_modulate s) = hpf_state s"
  "lpf_state (cv_modulate s) = lpf_state s"
  "g_adc_buffer (cv_clamp s) = g_adc_buffer s"
  "g_fft_input (cv_clamp s) = g_fft_input s"
  "g_fft_output (cv_clamp s) = g_fft_output s"
  "g_prev_spectral_centroid (cv_clamp s) = g_prev_spectral_centroid s"
  "hpf_state (cv_clamp s) = hpf_state s"
  "lpf_state (cv_clamp s) = lpf_state s"
  "g_adc_buffer (cv_telemetry s) = g_adc_buffer s"
  "g_fft_input (cv_telemetry s) = g_fft_input s"
  "g_fft_output (cv_telemetry s) = g_fft_output s"
  "g_prev_spectral_centroid (cv_telemetry s) = g_prev_spectral_centroid s"
  "hpf_state (cv_telemetry s) = hpf_state s"
  "lpf_state (cv_telemetry s) = lpf_state s"
  "g_running (cv_modulate s) = g_running s"
  "g_running (cv_clamp s) = g_running s"
  "g_running (cv_telemetry s) = g_running s"
  by (simp_all add: cv_modulate_def cv_clamp_def cv_telemetry_def Let_def upd_defs)

lemma apply_control_voltage_frame:
  "g_config (apply_control_voltage s) = g_config s"
  "analog (g_status (apply_control_voltage s)) = analog (g_status s)"
  "dsp (g_status (apply_control_voltage s)) = dsp (g_status s)"
  "overload_count (safety (g_status (apply_control_voltage s))) = overload_count (safety (g_status s))"
  "status (safety (g_status (apply_control_voltage s))) = status (safety (g_status s))"
  "g_adc_buffer (apply_control_voltage s) = g_adc_buffer s"
  "g_fft_input (apply_control_voltage s) = g_fft_input s"
  "g_fft_output (apply_control_voltage s) = g_fft_output s"
  "g_prev_spectral_centroid (apply_control_voltage s) = g_prev_spectral_centroid s"
  "hpf_state (apply_control_voltage s) = hpf_state s"
  "lpf_state (apply_control_voltage s) = lpf_state s"
  "g_running (apply_control_voltage s) = g_running s"
  by (simp_all add: apply_control_voltage_def cv_blocks_frame cv_blocks_statics)

lemma process_statistics_frame:
  "g_config (process_statistics pf start_us micros1 frames s) = g_config s"
  "analog (g_status (process_statistics pf start_us micros1 frames s)) = analog (g_status s)"
  "dsp (g_status (process_statistics pf start_us micros1 frames s)) = dsp (g_status s)"
  "safety (g_status (process_statistics pf start_us micros1 frames s)) = safety (g_status s)"
  "g_adc_buffer (process_statistics pf start_us micros1 frames s) = g_adc_buffer s"
  "g_fft_input (process_statistics pf start_us micros1 frames s) = g_fft_input s"
  "g_fft_output (process_statistics pf start_us micros1 frames s) = g_fft_output s"
  "g_prev_spectral_centroid (process_statistics pf start_us micros1 frames s)
     = g_prev_spectral_centroid s"
  "hpf_state (process_statistics pf start_us micros1 frames s) = hpf_state s"
  "lpf_state (process_statistics pf start_us micros1 frames s) = lpf_state s"
  "g_running (process_statistics pf start_us micros1 frames s) = g_running s"
  by (simp_all add: process_statistics_def Let_def upd_defs)




lemma fresh_node_fields:
  "g_config (fresh_node pf c) = c"
  "analog (g_status (fresh_node pf c)) = analog zero_status"
  "dsp (g_status (fresh_node pf c)) = dsp zero_status"
  "control (g_status (fresh_node pf c)) = control zero_status"
  "status (safety (g_status (fresh_node pf c))) = HYBRID_SAFETY_OK"
  "overload_count (safety (g_status (fresh_node pf c))) = 0"
  "g_adc_buffer (fresh_node pf c) = replicate (HYBRID_BUFFER_SIZE * HYBRID_ADC_CHANNELS) 0"
  "g_fft_input (fresh_node pf c) = replicate HYBRID_FFT_SIZE 0"
  "g_fft_output (fresh_node pf c) = replicate HYBRID_FFT_SIZE 0"
  "g_prev_spectral_centroid (fresh_node pf c) = 0"
  "hpf_state (fresh_node pf c) = replicate HYBRID_ADC_CHANNELS 0"
  "lpf_state (fresh_node pf c) = replicate HYBRID_ADC_CHANNELS 0"
  by (simp_all add: fresh_node_def hybrid_node_start_def hybrid_node_init_def Let_def
      platform_adc_init_def platform_dac_init_def upd_defs program_start_def zero_status_def)

lemma process_state:
  assumes "g_running s"
  shows "hybrid_node_process pf size_bits temp_raw micros0 micros1 (Some inp) (Some outp) frames s
       = (let start_us = (if pf = TEENSY then micros0 else 0);
              s5 = process_dsp size_bits start_us frames
                     (safety_check pf temp_raw
                        (process_analog_metrics frames (process_condition inp frames s)));
              s6 = (if enable_modulation (g_config s5) then apply_control_voltage s5 else s5)
          in (True, Some (fold (output_frame s6) [0 ..< frames] outp),
              process_statistics pf start_us micros1 frames s6))"
  using assms by (simp add: hybrid_node_process_def Let_def)

lemma process_analog_overloaded:
  "is_overloaded (analog (g_status (process_analog_metrics frames s)))
     = (peak_level (analog (g_status (process_analog_metrics frames s))) > SAFETY_OVERLOAD_THRESH)"
  by (simp add: process_analog_metrics_def Let_def case_prod_beta upd_defs)

lemma process_overload_step:
  assumes "g_running s"
  shows "preamp_gain (g_config (snd (snd
            (hybrid_node_process pf size_bits temp_raw micros0 micros1 (Some inp) (Some outp) frames s))))
       = (if conditioned_peak inp frames s > SAFETY_OVERLOAD_THRESH
             \<and> c_greater (preamp_gain (g_config s)) (Num ANALOG_PREAMP_GAIN_MIN)
          then c_times (preamp_gain (g_config s)) (Num (9 / 10)) else preamp_gain (g_config s))"
    and "overload_count (safety (g_status (snd (snd
            (hybrid_node_process pf size_bits temp_raw micros0 micros1 (Some inp) (Some outp) frames s)))))
       = (if conditioned_peak inp frames s > SAFETY_OVERLOAD_THRESH
          then overload_count (safety (g_status s)) + 1 else overload_count (safety (g_status s)))"
  by (simp_all add: process_state [OF assms] Let_def process_statistics_frame
      apply_control_voltage_frame process_dsp_frame safety_check_preamp_gain
      safety_check_overload_count process_analog_overloaded conditioned_peak_def
      process_analog_metrics_frame process_condition_frame)

lemma near_floor_fields:
  "g_running near_floor_node"
  "preamp_gain (g_config near_floor_node) = Num (21 / 20)"
  "adc_channels (g_config near_floor_node) = 2"
  "\<not> enable_analog_filter (g_config near_floor_node)"
  by (simp_all add: near_floor_node_def hybrid_node_set_preamp_gain_def fresh_running
      fresh_node_fields unfiltered_config_def self_test_config_def ANALOG_PREAMP_GAIN_MIN_def
      ANALOG_PREAMP_GAIN_MAX_def HYBRID_ADC_CHANNELS_def)

lemma near_floor_peak: "conditioned_peak [1, 0] 1 near_floor_node = 1"
  by (simp add: conditioned_peak_def process_analog_metrics_def process_condition_def Let_def
      near_floor_fields upd_defs analog_metrics_step_def process_condition_frame
      numeral_2_eq_2)

text \<open>
  C5. Each cycle whose conditioned peak exceeds 0.95 increments \<open>overload_count\<close> and
  multiplies the preamp gain by 0.9 while the gain is above \<open>ANALOG_PREAMP_GAIN_MIN\<close>
  (\<open>process_overload_step\<close>). The floor itself does not hold: the gain is tested before
  the multiplication and not after it. An operator sets the gain to 1.05, which
  \<open>hybrid_node_set_preamp_gain\<close> accepts; one cycle with the input frame \<open>[1, 0]\<close>, whose
  peak is 1, leaves the gain at 0.945, below the minimum of 1.
\<close>

theorem overload_gain_below_minimum:
  "fst (hybrid_node_set_preamp_gain (Num (21 / 20)) (fresh_node GENERIC unfiltered_config))
   \<and> conditioned_peak [1, 0] 1 near_floor_node > SAFETY_OVERLOAD_THRESH
   \<and> preamp_gain (g_config near_floor_node) = Num (21 / 20)
   \<and> preamp_gain (g_config (snd (snd
        (hybrid_node_process GENERIC 32 0 0 0 (Some [1, 0]) (Some [0, 0, 0, 0]) 1 near_floor_node))))
       = Num (189 / 200)
   \<and> 189 / 200 < ANALOG_PREAMP_GAIN_MIN"
  using near_floor_peak
  by (simp add: process_overload_step near_floor_fields
      hybrid_node_set_preamp_gain_def ANALOG_PREAMP_GAIN_MIN_def ANALOG_PREAMP_GAIN_MAX_def
      SAFETY_OVERLOAD_THRESH_def)

section \<open>Properties of the safety monitor\<close>

lemma set_control_voltage_fields:
  "g_config (snd (hybrid_node_set_control_voltage cv s)) = g_config s"
  "analog (g_status (snd (hybrid_node_set_control_voltage cv s))) = analog (g_status s)"
  "safety (g_status (snd (hybrid_node_set_control_voltage cv s))) = safety (g_status s)"
  "cv1 (control (g_status (snd (hybrid_node_set_control_voltage (Some v) s))))
     = (if enable_voltage_clamp (g_config s)
        then min (max (cv1 v) SAFETY_VOLTAGE_MIN) SAFETY_VOLTAGE_MAX else cv1 v)"
  "cv2 (control (g_status (snd (hybrid_node_set_control_voltage (Some v) s))))
     = (if enable_voltage_clamp (g_config s)
        then min (max (cv2 v) SAFETY_VOLTAGE_MIN) SAFETY_VOLTAGE_MAX else cv2 v)"
  by (simp_all add: hybrid_node_set_control_voltage_def Let_def upd_defs split: option.split)

lemma clamp_engaged_fields:
  "status (safety (g_status clamp_engaged)) = HYBRID_SAFETY_VOLTAGE_CLAMP"
  "analog (g_status clamp_engaged) = analog zero_status"
  "g_config clamp_engaged = self_test_config"
  by (simp_all add: clamp_engaged_def safety_check_status safety_check_frame
      safety_check_preamp_gain set_control_voltage_fields fresh_node_fields
      self_test_config_def cv_request_def SAFETY_VOLTAGE_MAX_def SAFETY_VOLTAGE_MIN_def
      zero_status_def)

lemma clamp_released_fields:
  "status (safety (g_status clamp_released)) = HYBRID_SAFETY_VOLTAGE_CLAMP"
  "\<not> is_overloaded (analog (g_status clamp_released))"
  "enable_voltage_clamp (g_config clamp_released)"
  "cv1 (control (g_status clamp_released)) = 0"
  "cv2 (control (g_status clamp_released)) = 0"
  by (simp_all add: clamp_released_def set_control_voltage_fields clamp_engaged_fields
      self_test_config_def cv_request_def SAFETY_VOLTAGE_MAX_def SAFETY_VOLTAGE_MIN_def
      zero_status_def)

text \<open>
  The overload block never writes the status, and no block ever writes
  \<open>HYBRID_SAFETY_ADC_OVERLOAD\<close>.
\<close>

lemma safety_check_never_overload_status:
  assumes "status (safety (g_status s)) \<noteq> HYBRID_SAFETY_ADC_OVERLOAD"
  shows "status (safety (g_status (safety_check pf temp_raw s))) \<noteq> HYBRID_SAFETY_ADC_OVERLOAD"
  using assms by (simp add: safety_check_status)

text \<open>
  The statement that a cycle without a triggering condition sets the status to
  \<open>HYBRID_SAFETY_OK\<close> fails on \<open>clamp_released\<close>: the status is
  \<open>HYBRID_SAFETY_VOLTAGE_CLAMP\<close> from an earlier cycle, the peak is not overloaded, both
  control voltages are below the clamp bound, and after \<open>safety_check\<close> the status is
  still not \<open>HYBRID_SAFETY_OK\<close>.
\<close>

theorem safety_check_no_revert_counterexample:
  "status (safety (g_status clamp_released)) = HYBRID_SAFETY_VOLTAGE_CLAMP
   \<and> \<not> is_overloaded (analog (g_status clamp_released))
   \<and> cv1 (control (g_status clamp_released)) < SAFETY_VOLTAGE_MAX
   \<and> cv2 (control (g_status clamp_released)) < SAFETY_VOLTAGE_MAX
   \<and> status (safety (g_status (safety_check GENERIC 0 clamp_released))) \<noteq> HYBRID_SAFETY_OK"
  by (simp add: safety_check_status clamp_released_fields SAFETY_VOLTAGE_MAX_def)

text \<open>
  C2, as the code has it, for a cycle whose peak is not overloaded: \<open>safety_check\<close>
  sets the status to \<open>HYBRID_SAFETY_TEMP_CRITICAL\<close> when the Teensy's thermal monitor
  reads above 85 degrees, else to \<open>HYBRID_SAFETY_VOLTAGE_CLAMP\<close> when clamping is enabled
  and a control voltage has reached \<open>SAFETY_VOLTAGE_MAX\<close>, else to
  \<open>HYBRID_SAFETY_TEMP_WARNING\<close> when the thermal monitor reads above 70 degrees, and
  otherwise leaves the status as it was. It never assigns \<open>HYBRID_SAFETY_OK\<close>: a status
  set in an earlier cycle stays until \<open>hybrid_node_init\<close> runs again. The overload
  counter and the gain are untouched in such a cycle.
\<close>

theorem safety_check_transition:
  assumes "\<not> is_overloaded (analog (g_status s))"
  shows "status (safety (g_status (safety_check pf temp_raw s))) =
     (if pf = TEENSY \<and> enable_thermal_monitor (g_config s)
          \<and> real_of_int temp_raw * (1 / 10) > SAFETY_TEMP_CRITICAL
      then HYBRID_SAFETY_TEMP_CRITICAL
      else if enable_voltage_clamp (g_config s)
          \<and> (cv1 (control (g_status s)) \<ge> SAFETY_VOLTAGE_MAX
             \<or> cv2 (control (g_status s)) \<ge> SAFETY_VOLTAGE_MAX)
      then HYBRID_SAFETY_VOLTAGE_CLAMP
      else if pf = TEENSY \<and> enable_thermal_monitor (g_config s)
          \<and> real_of_int temp_raw * (1 / 10) > SAFETY_TEMP_WARNING
      then HYBRID_SAFETY_TEMP_WARNING
      else status (safety (g_status s)))
    \<and> overload_count (safety (g_status (safety_check pf temp_raw s)))
        = overload_count (safety (g_status s))
    \<and> preamp_gain (g_config (safety_check pf temp_raw s)) = preamp_gain (g_config s)"
  using assms
  by (simp add: safety_check_status safety_check_overload_count safety_check_preamp_gain)

theorem safety_check_transition_witness:
  "\<not> is_overloaded (analog (g_status clamp_released))
   \<and> status (safety (g_status (safety_check GENERIC 0 clamp_released)))
       = HYBRID_SAFETY_VOLTAGE_CLAMP
   \<and> \<not> is_overloaded (analog (g_status (fresh_node GENERIC self_test_config)))
   \<and> status (safety (g_status (safety_check GENERIC 0 (fresh_node GENERIC self_test_config))))
       = HYBRID_SAFETY_OK"
proof -
  have quiet: "\<not> is_overloaded (analog (g_status clamp_released))"
    by (rule clamp_released_fields)
  have fresh: "\<not> is_overloaded (analog (g_status (fresh_node GENERIC self_test_config)))"
    by (simp add: fresh_node_fields zero_status_def)
  show ?thesis
    using safety_check_transition [OF quiet, of GENERIC 0]
      safety_check_transition [OF fresh, of GENERIC 0] quiet fresh
    by (simp add: clamp_released_fields fresh_node_fields SAFETY_VOLTAGE_MAX_def zero_status_def)
qed

section \<open>Properties of the analog filter\<close>

lemma hpf_stage_ignores_input:
  assumes "ch < length (hpf_state s)" and "idx < length buffer"
  shows "fst (hpf_stage hc idx ch (buffer, s)) ! idx = hc * hpf_state s ! ch"
  using assms by (simp add: hpf_stage_def)

lemma hpf_stage_zero:
  assumes "ch < length (hpf_state s)" and "hpf_state s ! ch = 0"
  shows "hpf_stage hc idx ch (buffer, s) = (buffer[idx := 0], s)"
  using assms by (simp add: hpf_stage_def list_update_same_conv)

lemma lpf_stage_zero:
  assumes "ch < length (lpf_state s)" and "lpf_state s ! ch = 0"
    and "idx < length buffer" and "buffer ! idx = 0"
  shows "lpf_stage lc idx ch (buffer, s) = (buffer, s)"
  using assms by (simp add: lpf_stage_def list_update_same_conv)

lemma filter_sample_zero:
  assumes "ch < length (hpf_state s)" and "hpf_state s ! ch = 0"
    and "ch < length (lpf_state s)" and "lpf_state s ! ch = 0"
    and "i * nch + ch < length buffer"
  shows "filter_sample hc lc nch i ch (buffer, s) = (buffer[i * nch + ch := 0], s)"
  using assms by (simp add: filter_sample_def hpf_stage_zero lpf_stage_zero)

lemma fold_clear_length [simp]:
  "length (fold (\<lambda>ch b. b[base + ch := (0::real)]) chs buffer) = length buffer"
  by (induction chs arbitrary: buffer) simp_all

lemma fold_filter_sample_zero:
  assumes "\<forall>ch \<in> set chs. ch < length (hpf_state s) \<and> hpf_state s ! ch = 0
             \<and> ch < length (lpf_state s) \<and> lpf_state s ! ch = 0
             \<and> i * nch + ch < length buffer"
  shows "fold (filter_sample hc lc nch i) chs (buffer, s)
       = (fold (\<lambda>ch b. b[i * nch + ch := 0]) chs buffer, s)"
  using assms
proof (induction chs arbitrary: buffer)
  case Nil
  then show ?case by simp
next
  case (Cons c chs)
  then show ?case by (simp add: filter_sample_zero)
qed

lemma fold_clear_nth:
  assumes "j < length buffer"
  shows "(fold (\<lambda>ch b. b[base + ch := (0::real)]) [0 ..< m] buffer) ! j
     = (if base \<le> j \<and> j < base + m then 0 else buffer ! j)"
  using assms
proof (induction m)
  case 0
  then show ?case by simp
next
  case (Suc m)
  show ?case
  proof (cases "j = base + m")
    case True
    with Suc.prems show ?thesis by simp
  next
    case False
    with Suc show ?thesis by auto
  qed
qed

lemma fold_clear_frames_length [simp]:
  "length (fold (\<lambda>i. fold (\<lambda>ch b. b[i * nch + ch := (0::real)]) [0 ..< nch]) is buffer)
     = length buffer"
  by (induction "is" arbitrary: buffer) simp_all

lemma fold_clear_frames_nth:
  assumes "j < length buffer"
  shows "(fold (\<lambda>i. fold (\<lambda>ch b. b[i * nch + ch := (0::real)]) [0 ..< nch]) [0 ..< frames] buffer) ! j
     = (if j < frames * nch then 0 else buffer ! j)"
  using assms
proof (induction frames)
  case 0
  then show ?case by simp
next
  case (Suc frames)
  then show ?case by (auto simp add: fold_clear_nth)
qed

lemma fold_frames_filter_zero:
  assumes "\<forall>ch < nch. ch < length (hpf_state s) \<and> hpf_state s ! ch = 0
             \<and> ch < length (lpf_state s) \<and> lpf_state s ! ch = 0"
    and "\<forall>i \<in> set is. \<forall>ch < nch. i * nch + ch < length buffer"
  shows "fold (\<lambda>i. fold (filter_sample hc lc nch i) [0 ..< nch]) is (buffer, s)
       = (fold (\<lambda>i. fold (\<lambda>ch b. b[i * nch + ch := 0]) [0 ..< nch]) is buffer, s)"
  using assms(2)
proof (induction "is" arbitrary: buffer)
  case Nil
  then show ?case by simp
next
  case (Cons i "is")
  have "fold (filter_sample hc lc nch i) [0 ..< nch] (buffer, s)
      = (fold (\<lambda>ch b. b[i * nch + ch := 0]) [0 ..< nch] buffer, s)"
    using assms(1) Cons.prems by (intro fold_filter_sample_zero) simp
  with Cons show ?case by simp
qed

lemma in_frame_bound:
  assumes "i < frames" and "ch < nch"
  shows "i * nch + ch < frames * (nch::nat)"
proof -
  have "i * nch + ch < i * nch + nch" using assms(2) by simp
  also have "\<dots> = Suc i * nch" by simp
  also have "\<dots> \<le> frames * nch" using assms(1) by (intro mult_le_mono1) simp
  finally show ?thesis .
qed

lemma apply_analog_filter_clears:
  assumes "hpf_state s = replicate HYBRID_ADC_CHANNELS 0"
    and "lpf_state s = replicate HYBRID_ADC_CHANNELS 0"
    and "adc_channels (g_config s) \<le> HYBRID_ADC_CHANNELS"
    and "frames * adc_channels (g_config s) \<le> length buffer"
  shows "snd (apply_analog_filter buffer frames s) = s"
    and "length (fst (apply_analog_filter buffer frames s)) = length buffer"
    and "\<forall>j < length buffer. fst (apply_analog_filter buffer frames s) ! j
             = (if j < frames * adc_channels (g_config s) then 0 else buffer ! j)"
proof -
  let ?nch = "adc_channels (g_config s)"
  have states: "\<forall>ch < ?nch. ch < length (hpf_state s) \<and> hpf_state s ! ch = 0
             \<and> ch < length (lpf_state s) \<and> lpf_state s ! ch = 0"
    using assms(1,2,3) by simp
  have range: "\<forall>i \<in> set [0 ..< frames]. \<forall>ch < ?nch. i * ?nch + ch < length buffer"
    using assms(4) in_frame_bound [of _ frames _ ?nch] by fastforce
  note eq = fold_frames_filter_zero [OF states range]
  show "snd (apply_analog_filter buffer frames s) = s"
    by (simp add: apply_analog_filter_def Let_def eq)
  show "length (fst (apply_analog_filter buffer frames s)) = length buffer"
    by (simp add: apply_analog_filter_def Let_def eq)
  show "\<forall>j < length buffer. fst (apply_analog_filter buffer frames s) ! j
             = (if j < frames * adc_channels (g_config s) then 0 else buffer ! j)"
    by (simp add: apply_analog_filter_def Let_def eq fold_clear_frames_nth)
qed

text \<open>
  C4. The filter that the code implements is not a high-pass followed by a low-pass. The
  high-pass line adds the sample and subtracts it again, so the high-pass stage writes
  \<open>hpf_coeff * hpf_state[ch]\<close> whatever the input is (\<open>hpf_stage_ignores_input\<close>). The
  states start at zero and nothing else writes them, so with the filter states at their
  initial zeros \<open>apply_analog_filter\<close> replaces every sample of every frame by 0 and
  leaves the states at zero: for every input buffer, each cycle again.
\<close>

theorem analog_filter_output_zero:
  assumes "hpf_state s = replicate HYBRID_ADC_CHANNELS 0"
    and "lpf_state s = replicate HYBRID_ADC_CHANNELS 0"
    and "adc_channels (g_config s) \<le> HYBRID_ADC_CHANNELS"
    and "frames * adc_channels (g_config s) \<le> length buffer"
  shows "snd (apply_analog_filter buffer frames s) = s
       \<and> length (fst (apply_analog_filter buffer frames s)) = length buffer
       \<and> (\<forall>j < length buffer. fst (apply_analog_filter buffer frames s) ! j
             = (if j < frames * adc_channels (g_config s) then 0 else buffer ! j))"
  using apply_analog_filter_clears [OF assms] by simp

theorem analog_filter_output_zero_witness:
  "hpf_state (fresh_node GENERIC self_test_config) = replicate HYBRID_ADC_CHANNELS 0
   \<and> lpf_state (fresh_node GENERIC self_test_config) = replicate HYBRID_ADC_CHANNELS 0
   \<and> adc_channels (g_config (fresh_node GENERIC self_test_config)) \<le> HYBRID_ADC_CHANNELS
   \<and> 2 * adc_channels (g_config (fresh_node GENERIC self_test_config))
        \<le> length [1, - 1, 1 / 2, - (1 / 2) :: real]
   \<and> fst (apply_analog_filter [1, - 1, 1 / 2, - (1 / 2)] 2 (fresh_node GENERIC self_test_config)) ! 0 = 0
   \<and> fst (apply_analog_filter [1, - 1, 1 / 2, - (1 / 2)] 2 (fresh_node GENERIC self_test_config)) ! 1 = 0
   \<and> fst (apply_analog_filter [1, - 1, 1 / 2, - (1 / 2)] 2 (fresh_node GENERIC self_test_config)) ! 2 = 0
   \<and> fst (apply_analog_filter [1, - 1, 1 / 2, - (1 / 2)] 2 (fresh_node GENERIC self_test_config)) ! 3 = 0"
proof -
  let ?s = "fresh_node GENERIC self_test_config"
  have h: "hpf_state ?s = replicate HYBRID_ADC_CHANNELS 0"
    and l: "lpf_state ?s = replicate HYBRID_ADC_CHANNELS 0"
    by (simp_all add: fresh_node_fields)
  have c: "adc_channels (g_config ?s) \<le> HYBRID_ADC_CHANNELS"
    by (simp add: fresh_node_fields self_test_config_def)
  have n: "2 * adc_channels (g_config ?s) \<le> length [1, - 1, 1 / 2, - (1 / 2) :: real]"
    by (simp add: fresh_node_fields self_test_config_def HYBRID_ADC_CHANNELS_def)
  show ?thesis
    using analog_filter_output_zero [OF h l c n] h l c n
    by (simp add: fresh_node_fields self_test_config_def HYBRID_ADC_CHANNELS_def)
qed

section \<open>Properties of the metric analysis\<close>

lemma fold_update_length [simp]:
  "length (fold (\<lambda>i b. b[i := f i]) is xs) = length xs"
  by (induction "is" arbitrary: xs) simp_all

lemma fold_update_nth:
  assumes "n < length xs"
  shows "(fold (\<lambda>i b. b[i := f i]) [a ..< b] xs) ! n = (if a \<le> n \<and> n < b then f n else xs ! n)"
  using assms
proof (induction b)
  case 0
  then show ?case by simp
next
  case (Suc b)
  show ?case
  proof (cases "a \<le> b")
    case True
    with Suc show ?thesis
      by (cases "n = b") auto
  next
    case False
    then show ?thesis by auto
  qed
qed

lemma fft_window_length [simp]:
  "length (fft_window input frames nch fft_input) = length fft_input"
  by (simp add: fft_window_def Let_def)

lemma fft_window_nth:
  assumes "length fft_input = HYBRID_FFT_SIZE" and "n < HYBRID_FFT_SIZE"
  shows "fft_window input frames nch fft_input ! n = (if n < frames then input ! (n * nch) else 0)"
  using assms by (simp add: fft_window_def Let_def fold_update_nth)

lemma fold_dft_term:
  "fold (dft_term x k) [0 ..< N] acc
     = (fst acc + (\<Sum>n < N. x ! n * cos (dft_angle k n)),
        snd acc - (\<Sum>n < N. x ! n * sin (dft_angle k n)))"
  by (induction N) (simp_all add: dft_term_def dft_angle_def case_prod_beta Let_def)

lemma dft_bin_eq:
  "dft_bin x k out = out[k * 2 := dft_re x k, k * 2 + 1 := dft_im x k]"
  by (simp add: dft_bin_def fold_dft_term dft_re_def dft_im_def)

lemma dft_bin_length [simp]: "length (dft_bin x k out) = length out"
  by (simp add: dft_bin_eq)

lemma dft_bin_nth:
  assumes "j < length out"
  shows "dft_bin x k out ! j
       = (if j = k * 2 + 1 then dft_im x k else if j = k * 2 then dft_re x k else out ! j)"
  using assms by (simp add: dft_bin_eq nth_list_update)

lemma fold_dft_bin_length [simp]:
  "length (fold (dft_bin x) ks out) = length out"
  by (induction ks arbitrary: out) simp_all

lemma fold_dft_bin_nth:
  assumes "j < length out"
  shows "fold (dft_bin x) [0 ..< K] out ! j
       = (if j < 2 * K then (if even j then dft_re x (j div 2) else dft_im x (j div 2))
          else out ! j)"
  using assms
proof (induction K)
  case 0
  then show ?case by simp
next
  case (Suc K)
  consider "j = K * 2" | "j = K * 2 + 1" | "j < K * 2" | "j > K * 2 + 1"
    by linarith
  then show ?case
  proof cases
    case 1
    with Suc.prems show ?thesis by (simp add: dft_bin_nth)
  next
    case 2
    with Suc.prems show ?thesis by (simp add: dft_bin_nth)
  next
    case 3
    with Suc show ?thesis by (simp add: dft_bin_nth)
  next
    case 4
    with Suc show ?thesis by (simp add: dft_bin_nth)
  qed
qed

lemma dft_bins:
  assumes "HYBRID_FFT_SIZE \<le> length out" and "k < HYBRID_FFT_SIZE div 2"
  shows "dft x out ! (k * 2) = dft_re x k" and "dft x out ! Suc (k * 2) = dft_im x k"
  using assms by (simp_all add: dft_def fold_dft_bin_nth HYBRID_FFT_SIZE_def)

lemma fold_centroid_term:
  assumes "a \<le> b"
  shows "fold (centroid_term size_bits rate out) [a ..< b] acc
       = (fst acc + (\<Sum>k = a ..< b. computed_frequency size_bits rate k * bin_magnitude out k),
          snd acc + (\<Sum>k = a ..< b. bin_magnitude out k))"
  using assms
proof (induction b)
  case 0
  then show ?case by simp
next
  case (Suc b)
  show ?case
  proof (cases "a = Suc b")
    case True
    then show ?thesis by simp
  next
    case False
    with Suc show ?thesis
      by (simp add: centroid_term_def case_prod_beta Let_def computed_frequency_def
          bin_magnitude_def)
  qed
qed

lemma centroid_sums_eq:
  "centroid_sums size_bits rate out
     = (computed_weighted_total size_bits rate out, magnitude_total out)"
  by (simp add: centroid_sums_def fold_centroid_term computed_weighted_total_def
      magnitude_total_def HYBRID_FFT_SIZE_def)

text \<open>
  As long as the product for the last bin fits the unsigned type, the frequencies of the
  code are the frequencies \<open>k * rate / HYBRID_FFT_SIZE\<close> of the bins.
\<close>

lemma computed_frequency_exact:
  assumes "(HYBRID_FFT_SIZE div 2 - 1) * rate < 2 ^ max size_bits 32"
    and "k < HYBRID_FFT_SIZE div 2"
  shows "computed_frequency size_bits rate k = bin_frequency rate k"
proof -
  have "k \<le> HYBRID_FFT_SIZE div 2 - 1"
    using assms(2) by simp
  then have "k * rate \<le> (HYBRID_FFT_SIZE div 2 - 1) * rate"
    by (rule mult_le_mono1)
  then have "k * rate < 2 ^ max size_bits 32"
    using assms(1) by (rule le_less_trans)
  then show ?thesis
    by (simp add: computed_frequency_def bin_frequency_def size_t_mult_def)
qed

lemma computed_weighted_total_exact:
  assumes "(HYBRID_FFT_SIZE div 2 - 1) * rate < 2 ^ max size_bits 32"
  shows "computed_weighted_total size_bits rate out = weighted_total rate out"
  unfolding computed_weighted_total_def weighted_total_def
  by (rule sum.cong) (simp_all add: computed_frequency_exact [OF assms])

text \<open>
  Past that bound the product wraps: at a sample rate of \<open>2 ^ 24\<close> Hz and 32 bits, bin
  256 gets the frequency 0.
\<close>

lemma computed_frequency_wraps:
  "computed_frequency 32 (2 ^ 24) 256 = 0"
  "bin_frequency (2 ^ 24) 256 = 4194304"
  by (simp_all add: computed_frequency_def bin_frequency_def size_t_mult_def HYBRID_FFT_SIZE_def)

lemma magnitude_total_nonneg: "0 \<le> magnitude_total out"
  by (simp add: magnitude_total_def bin_magnitude_def sum_nonneg)

lemma spectral_update_fields:
  "spectral_centroid (dsp (g_status (spectral_update size_bits s)))
     = (if magnitude_total (g_fft_output s) = 0 then spectral_centroid (dsp (g_status s))
        else computed_weighted_total size_bits (sample_rate (g_config s)) (g_fft_output s)
               / magnitude_total (g_fft_output s))"
  "spectral_flux (dsp (g_status (spectral_update size_bits s)))
     = \<bar>spectral_centroid (dsp (g_status (spectral_update size_bits s))) - g_prev_spectral_centroid s\<bar>"
  "g_prev_spectral_centroid (spectral_update size_bits s)
     = spectral_centroid (dsp (g_status (spectral_update size_bits s)))"
  "coherence (dsp (g_status (spectral_update size_bits s))) = coherence (dsp (g_status s))"
  using magnitude_total_nonneg [of "g_fft_output s"]
  by (simp_all add: spectral_update_def centroid_sums_eq Let_def upd_defs)

lemma dsp_process_fft_fields:
  "g_fft_input (dsp_process_fft size_bits input frames s)
     = fft_window input frames (adc_channels (g_config s)) (g_fft_input s)"
  "g_fft_output (dsp_process_fft size_bits input frames s)
     = dft (fft_window input frames (adc_channels (g_config s)) (g_fft_input s)) (g_fft_output s)"
  "spectral_centroid (dsp (g_status (dsp_process_fft size_bits input frames s)))
     = (if magnitude_total (g_fft_output (dsp_process_fft size_bits input frames s)) = 0
        then spectral_centroid (dsp (g_status s))
        else computed_weighted_total size_bits (sample_rate (g_config s))
               (g_fft_output (dsp_process_fft size_bits input frames s))
               / magnitude_total (g_fft_output (dsp_process_fft size_bits input frames s)))"
  "spectral_flux (dsp (g_status (dsp_process_fft size_bits input frames s)))
     = \<bar>spectral_centroid (dsp (g_status (dsp_process_fft size_bits input frames s)))
          - g_prev_spectral_centroid s\<bar>"
  "g_prev_spectral_centroid (dsp_process_fft size_bits input frames s)
     = spectral_centroid (dsp (g_status (dsp_process_fft size_bits input frames s)))"
  "coherence (dsp (g_status (dsp_process_fft size_bits input frames s))) = coherence (dsp (g_status s))"
  by (simp_all add: dsp_process_fft_def Let_def upd_defs spectral_update_fields
      spectral_update_frame)

lemma dft_length [simp]: "length (dft x out) = length out"
  by (simp add: dft_def)

lemma dft_zero_window:
  assumes "\<forall>n < HYBRID_FFT_SIZE. x ! n = 0"
  shows "dft_re x k = 0" and "dft_im x k = 0"
  using assms by (simp_all add: dft_re_def dft_im_def)

lemma sum_impulse:
  fixes g :: "nat \<Rightarrow> real"
  assumes "\<forall>n < HYBRID_FFT_SIZE. 0 < n \<longrightarrow> g n = 0"
  shows "(\<Sum>n < HYBRID_FFT_SIZE. g n) = g 0"
proof -
  have "(\<Sum>n < HYBRID_FFT_SIZE. g n) = (\<Sum>n = 0 ..< HYBRID_FFT_SIZE. g n)"
    by (simp only: lessThan_atLeast0)
  also have "\<dots> = g 0 + (\<Sum>n = Suc 0 ..< HYBRID_FFT_SIZE. g n)"
    by (rule sum.atLeast_Suc_lessThan) (simp add: HYBRID_FFT_SIZE_def)
  also have "(\<Sum>n = Suc 0 ..< HYBRID_FFT_SIZE. g n) = 0"
    by (rule sum.neutral) (use assms in auto)
  finally show ?thesis by simp
qed

lemma dft_impulse_window:
  assumes "x ! 0 = a" and "\<forall>n < HYBRID_FFT_SIZE. 0 < n \<longrightarrow> x ! n = 0"
  shows "dft_re x k = a" and "dft_im x k = 0"
proof -
  have "dft_re x k = x ! 0 * cos (dft_angle k 0)"
    unfolding dft_re_def by (rule sum_impulse) (use assms(2) in simp)
  then show "dft_re x k = a"
    using assms(1) by (simp add: dft_angle_def)
  have "(\<Sum>n < HYBRID_FFT_SIZE. x ! n * sin (dft_angle k n)) = x ! 0 * sin (dft_angle k 0)"
    by (rule sum_impulse) (use assms(2) in simp)
  then show "dft_im x k = 0"
    by (simp add: dft_im_def dft_angle_def)
qed

lemma bin_magnitude_zero:
  assumes "HYBRID_FFT_SIZE \<le> length out" and "\<forall>n < HYBRID_FFT_SIZE. x ! n = 0"
    and "k < HYBRID_FFT_SIZE div 2"
  shows "bin_magnitude (dft x out) k = 0"
  using assms by (simp add: bin_magnitude_def dft_bins dft_zero_window)

lemma magnitude_total_zero:
  assumes "HYBRID_FFT_SIZE \<le> length out" and "\<forall>n < HYBRID_FFT_SIZE. x ! n = 0"
  shows "magnitude_total (dft x out) = 0"
  unfolding magnitude_total_def
  by (rule sum.neutral) (simp add: bin_magnitude_zero [OF assms])


lemma sum_bins: "(\<Sum>k = 1 ..< HYBRID_FFT_SIZE div 2. real k) = 130816"
proof -
  have "(\<Sum>k = 1 ..< HYBRID_FFT_SIZE div 2. real k) = real (\<Sum>{1 ..< HYBRID_FFT_SIZE div 2})"
    by simp
  also have "\<dots> = 130816"
    by (simp only: Sum_Ico_nat) (simp add: HYBRID_FFT_SIZE_def)
  finally show ?thesis .
qed

lemma bin_magnitude_impulse:
  assumes "HYBRID_FFT_SIZE \<le> length out"
    and "x ! 0 = a" and "\<forall>n < HYBRID_FFT_SIZE. 0 < n \<longrightarrow> x ! n = 0"
    and "k < HYBRID_FFT_SIZE div 2"
  shows "bin_magnitude (dft x out) k = \<bar>a\<bar>"
  using assms by (simp add: bin_magnitude_def dft_bins dft_impulse_window)

lemma totals_impulse:
  assumes "HYBRID_FFT_SIZE \<le> length out"
    and "x ! 0 = a" and "\<forall>n < HYBRID_FFT_SIZE. 0 < n \<longrightarrow> x ! n = 0"
  shows "magnitude_total (dft x out) = 511 * \<bar>a\<bar>"
    and "weighted_total rate (dft x out) = \<bar>a\<bar> * real rate * 130816 / 1024"
proof -
  note mag = bin_magnitude_impulse [OF assms]
  have "magnitude_total (dft x out) = (\<Sum>k = 1 ..< HYBRID_FFT_SIZE div 2. \<bar>a\<bar>)"
    unfolding magnitude_total_def by (rule sum.cong) (simp_all add: mag)
  then show "magnitude_total (dft x out) = 511 * \<bar>a\<bar>"
    by (simp add: HYBRID_FFT_SIZE_def)
  have "weighted_total rate (dft x out)
      = (\<Sum>k = 1 ..< HYBRID_FFT_SIZE div 2. real k * (real rate * \<bar>a\<bar> / 1024))"
    unfolding weighted_total_def
    by (rule sum.cong) (simp_all add: mag bin_frequency_def HYBRID_FFT_SIZE_def)
  also have "\<dots> = (\<Sum>k = 1 ..< HYBRID_FFT_SIZE div 2. real k) * (real rate * \<bar>a\<bar> / 1024)"
    by (simp only: sum_distrib_right)
  also have "\<dots> = \<bar>a\<bar> * real rate * 130816 / 1024"
    by (simp only: sum_bins) simp
  finally show "weighted_total rate (dft x out) = \<bar>a\<bar> * real rate * 130816 / 1024" .
qed


lemma impulse_window_nth:
  "impulse_window ! 0 = 1 / 2"
  "0 < m \<Longrightarrow> m < 1024 \<Longrightarrow> impulse_window ! m = 0"
  by (simp_all add: impulse_window_def nth_Cons')

text \<open>
  The analysis of the impulse buffer, on any node with two channels at 48 kHz whose
  transform buffers have their declared sizes: every non-DC bin has the magnitude 1/2,
  and the centroid is 12000 Hz.
\<close>

lemma impulse_analysis:
  assumes "length (g_fft_input s) = HYBRID_FFT_SIZE"
    and "length (g_fft_output s) = HYBRID_FFT_SIZE"
    and "adc_channels (g_config s) = 2" and "sample_rate (g_config s) = 48000"
  shows "length (g_fft_input (dsp_process_fft 32 impulse_window 512 s)) = HYBRID_FFT_SIZE"
    and "length (g_fft_output (dsp_process_fft 32 impulse_window 512 s)) = HYBRID_FFT_SIZE"
    and "magnitude_total (g_fft_output (dsp_process_fft 32 impulse_window 512 s)) = 511 / 2"
    and "spectral_centroid (dsp (g_status (dsp_process_fft 32 impulse_window 512 s))) = 12000"
    and "g_prev_spectral_centroid (dsp_process_fft 32 impulse_window 512 s) = 12000"
proof -
  let ?t = "dsp_process_fft 32 impulse_window 512 s"
  let ?w = "fft_window impulse_window 512 2 (g_fft_input s)"
  have w0: "?w ! 0 = 1 / 2"
    and wn: "\<forall>n < HYBRID_FFT_SIZE. 0 < n \<longrightarrow> ?w ! n = 0"
    by (simp_all add: fft_window_nth assms(1) impulse_window_nth HYBRID_FFT_SIZE_def)
  have out: "g_fft_output ?t = dft ?w (g_fft_output s)"
    by (simp add: dsp_process_fft_fields assms)
  have len: "HYBRID_FFT_SIZE \<le> length (g_fft_output s)"
    by (simp add: assms)
  note totals = totals_impulse [OF len w0 wn]
  show "length (g_fft_input ?t) = HYBRID_FFT_SIZE"
    by (simp add: dsp_process_fft_fields assms)
  show "length (g_fft_output ?t) = HYBRID_FFT_SIZE"
    by (simp add: out assms)
  show mag: "magnitude_total (g_fft_output ?t) = 511 / 2"
    by (simp add: out totals)
  have fits: "(HYBRID_FFT_SIZE div 2 - 1) * 48000 < (2::nat) ^ max 32 32"
    by (simp add: HYBRID_FFT_SIZE_def)
  have "spectral_centroid (dsp (g_status ?t))
      = weighted_total 48000 (g_fft_output ?t) / magnitude_total (g_fft_output ?t)"
    using mag
    by (simp add: dsp_process_fft_fields(3) assms computed_weighted_total_exact [OF fits])
  then show cen: "spectral_centroid (dsp (g_status ?t)) = 12000"
    by (simp add: out totals)
  show "g_prev_spectral_centroid ?t = 12000"
    using cen by (simp add: dsp_process_fft_fields(5))
qed

text \<open>
  The analysis of a buffer of zeros, on any node with two channels whose transform buffers
  have their declared sizes: the magnitudes sum to 0, the centroid is left as it was, and
  the flux is its distance from the remembered centroid.
\<close>

lemma silent_analysis:
  assumes "length (g_fft_input s) = HYBRID_FFT_SIZE"
    and "length (g_fft_output s) = HYBRID_FFT_SIZE"
    and "adc_channels (g_config s) = 2"
  shows "magnitude_total (g_fft_output (dsp_process_fft size_bits (replicate 1024 0) 512 s)) = 0"
    and "spectral_centroid (dsp (g_status (dsp_process_fft size_bits (replicate 1024 0) 512 s)))
           = spectral_centroid (dsp (g_status s))"
    and "spectral_flux (dsp (g_status (dsp_process_fft size_bits (replicate 1024 0) 512 s)))
           = \<bar>spectral_centroid (dsp (g_status s)) - g_prev_spectral_centroid s\<bar>"
proof -
  let ?t = "dsp_process_fft size_bits (replicate 1024 0) 512 s"
  have window: "\<forall>n < HYBRID_FFT_SIZE.
      fft_window (replicate 1024 0) 512 (adc_channels (g_config s)) (g_fft_input s) ! n = 0"
    by (simp add: fft_window_nth assms HYBRID_FFT_SIZE_def)
  have len: "HYBRID_FFT_SIZE \<le> length (g_fft_output s)"
    by (simp add: assms)
  show mag: "magnitude_total (g_fft_output ?t) = 0"
    by (simp only: dsp_process_fft_fields(2) magnitude_total_zero [OF len window])
  show cen: "spectral_centroid (dsp (g_status ?t)) = spectral_centroid (dsp (g_status s))"
    using mag by (simp add: dsp_process_fft_fields(3))
  show "spectral_flux (dsp (g_status ?t))
      = \<bar>spectral_centroid (dsp (g_status s)) - g_prev_spectral_centroid s\<bar>"
    using cen by (simp add: dsp_process_fft_fields(4))
qed

lemma unfiltered_fields:
  "adc_channels unfiltered_config = 2"
  "sample_rate unfiltered_config = 48000"
  "\<not> enable_analog_filter unfiltered_config"
  "enable_dsp unfiltered_config"
  "enable_coherence unfiltered_config"
  "enable_voltage_clamp unfiltered_config"
  by (simp_all add: unfiltered_config_def self_test_config_def HYBRID_ADC_CHANNELS_def
      HYBRID_SAMPLE_RATE_def)

lemma after_impulse_fields:
  "length (g_fft_input after_impulse) = HYBRID_FFT_SIZE"
  "length (g_fft_output after_impulse) = HYBRID_FFT_SIZE"
  "magnitude_total (g_fft_output after_impulse) = 511 / 2"
  "spectral_centroid (dsp (g_status after_impulse)) = 12000"
  "g_prev_spectral_centroid after_impulse = 12000"
  "g_config after_impulse = unfiltered_config"
proof -
  let ?s = "fresh_node GENERIC unfiltered_config"
  have a: "length (g_fft_input ?s) = HYBRID_FFT_SIZE"
    and b: "length (g_fft_output ?s) = HYBRID_FFT_SIZE"
    and c: "adc_channels (g_config ?s) = 2" and d: "sample_rate (g_config ?s) = 48000"
    by (simp_all add: fresh_node_fields unfiltered_fields)
  note imp = impulse_analysis [OF a b c d, folded after_impulse_def]
  show "length (g_fft_input after_impulse) = HYBRID_FFT_SIZE"
    "length (g_fft_output after_impulse) = HYBRID_FFT_SIZE"
    "magnitude_total (g_fft_output after_impulse) = 511 / 2"
    "spectral_centroid (dsp (g_status after_impulse)) = 12000"
    "g_prev_spectral_centroid after_impulse = 12000"
    by (rule imp)+
  show "g_config after_impulse = unfiltered_config"
    by (simp add: after_impulse_def dsp_process_fft_frame fresh_node_fields)
qed

lemma after_silence_fields:
  "magnitude_total (g_fft_output after_silence) = 0"
  "spectral_centroid (dsp (g_status after_silence)) = 12000"
  "spectral_flux (dsp (g_status after_silence)) = 0"
proof -
  have c: "adc_channels (g_config after_impulse) = 2"
    by (simp add: after_impulse_fields unfiltered_fields)
  note sil = silent_analysis [OF after_impulse_fields(1,2) c, of 32,
      folded silent_window_def, folded after_silence_def]
  show "magnitude_total (g_fft_output after_silence) = 0"
    by (rule sil)
  show "spectral_centroid (dsp (g_status after_silence)) = 12000"
    by (simp add: sil after_impulse_fields)
  show "spectral_flux (dsp (g_status after_silence)) = 0"
    by (simp add: sil after_impulse_fields)
qed

text \<open>
  The statement that the centroid is 0 whenever the magnitudes sum to 0 fails on the second
  of the two cycles: the silent window gives a magnitude sum of 0, for which the
  specification's centroid is 0, and the node's centroid is still the 12000 Hz of the
  impulse before it.
\<close>

theorem centroid_after_silence_counterexample:
  "magnitude_total (g_fft_output after_silence) = 0
   \<and> spec_centroid 48000 (g_fft_output after_silence) = 0
   \<and> spectral_centroid (dsp (g_status after_silence)) = 12000"
  by (simp add: after_silence_fields spec_centroid_def)

text \<open>
  C3, as the code has it. After \<open>dsp_process_fft\<close> the output buffer holds the transform
  of the zero-padded window, and over its non-DC bins \<open>1 ..< HYBRID_FFT_SIZE div 2\<close>:
  if the magnitudes do not sum to 0, the spectral centroid is \<open>\<Sum>(freq * mag) / \<Sum>mag\<close>
  with the frequency of bin \<open>k\<close> computed as \<open>(k * sample_rate) / HYBRID_FFT_SIZE\<close>, the
  product in unsigned arithmetic of \<open>max size_bits 32\<close> bits; as long as
  \<open>511 * sample_rate\<close> fits that width, this is the magnitude-weighted mean frequency, the
  specification's centroid. If the magnitudes sum to 0, the centroid keeps the value it
  had before the cycle.
\<close>

theorem spectral_centroid_update:
  "g_fft_output (dsp_process_fft size_bits input frames s)
     = dft (fft_window input frames (adc_channels (g_config s)) (g_fft_input s)) (g_fft_output s)
   \<and> (magnitude_total (g_fft_output (dsp_process_fft size_bits input frames s)) \<noteq> 0 \<longrightarrow>
        spectral_centroid (dsp (g_status (dsp_process_fft size_bits input frames s)))
          = computed_weighted_total size_bits (sample_rate (g_config s))
              (g_fft_output (dsp_process_fft size_bits input frames s))
              / magnitude_total (g_fft_output (dsp_process_fft size_bits input frames s)))
   \<and> (magnitude_total (g_fft_output (dsp_process_fft size_bits input frames s)) \<noteq> 0
        \<and> (HYBRID_FFT_SIZE div 2 - 1) * sample_rate (g_config s) < 2 ^ max size_bits 32 \<longrightarrow>
        spectral_centroid (dsp (g_status (dsp_process_fft size_bits input frames s)))
          = weighted_total (sample_rate (g_config s))
              (g_fft_output (dsp_process_fft size_bits input frames s))
              / magnitude_total (g_fft_output (dsp_process_fft size_bits input frames s))
        \<and> spectral_centroid (dsp (g_status (dsp_process_fft size_bits input frames s)))
          = spec_centroid (sample_rate (g_config s))
              (g_fft_output (dsp_process_fft size_bits input frames s)))
   \<and> (magnitude_total (g_fft_output (dsp_process_fft size_bits input frames s)) = 0 \<longrightarrow>
        spectral_centroid (dsp (g_status (dsp_process_fft size_bits input frames s)))
          = spectral_centroid (dsp (g_status s)))"
  by (simp add: dsp_process_fft_fields(3) dsp_process_fft_fields(2) spec_centroid_def
      computed_weighted_total_exact)

theorem spectral_centroid_update_witness:
  "magnitude_total (g_fft_output after_impulse) \<noteq> 0
   \<and> (HYBRID_FFT_SIZE div 2 - 1) * 48000 < (2::nat) ^ max 32 32
   \<and> spectral_centroid (dsp (g_status after_impulse))
       = spec_centroid 48000 (g_fft_output after_impulse)
   \<and> magnitude_total (g_fft_output after_silence) = 0
   \<and> spectral_centroid (dsp (g_status after_silence))
       = spectral_centroid (dsp (g_status after_impulse))"
proof -
  have rate0: "sample_rate (g_config (fresh_node GENERIC unfiltered_config)) = 48000"
    by (simp add: fresh_node_fields unfiltered_fields)
  have loud: "magnitude_total (g_fft_output after_impulse) \<noteq> 0"
    by (simp add: after_impulse_fields)
  have fits: "(HYBRID_FFT_SIZE div 2 - 1) * 48000 < (2::nat) ^ max 32 32"
    by (simp add: HYBRID_FFT_SIZE_def)
  have quiet: "magnitude_total (g_fft_output after_silence) = 0"
    by (rule after_silence_fields)
  have first: "magnitude_total (g_fft_output after_impulse) \<noteq> 0
        \<and> (HYBRID_FFT_SIZE div 2 - 1) * 48000 < (2::nat) ^ max 32 32 \<longrightarrow>
      spectral_centroid (dsp (g_status after_impulse))
        = spec_centroid 48000 (g_fft_output after_impulse)"
    using spectral_centroid_update [of 32 impulse_window 512 "fresh_node GENERIC unfiltered_config",
        folded after_impulse_def, unfolded rate0]
    by blast
  have second: "magnitude_total (g_fft_output after_silence) = 0 \<longrightarrow>
      spectral_centroid (dsp (g_status after_silence))
        = spectral_centroid (dsp (g_status after_impulse))"
    using spectral_centroid_update [of 32 silent_window 512 after_impulse, folded after_silence_def]
    by blast
  show ?thesis
    using first second loud quiet fits by simp
qed

section \<open>The first cycle on silence\<close>







lemma cal_acquire_shaped:
  assumes "statics_shaped (snd ts)"
  shows "statics_shaped (snd (cal_acquire pf sample ts))"
  using assms
  by (simp add: cal_acquire_def platform_adc_read_def statics_shaped_def case_prod_beta Let_def)

lemma fold_cal_acquire_shaped:
  assumes "statics_shaped (snd ts)"
  shows "statics_shaped (snd (fold (cal_acquire pf) samples ts))"
  using assms by (induction samples arbitrary: ts) (simp_all add: cal_acquire_shaped)

lemma hybrid_node_calibrate_shaped:
  assumes "statics_shaped s"
  shows "statics_shaped (snd (snd (hybrid_node_calibrate pf micros0 micros1 now cal_arg s)))"
proof -
  have "statics_shaped (snd (fold (cal_acquire pf) [0 ..< CAL_SAMPLES]
          (replicate HYBRID_ADC_CHANNELS (replicate CAL_SAMPLES 0), s)))"
    by (rule fold_cal_acquire_shaped) (simp add: assms)
  with assms show ?thesis
    by (auto simp add: hybrid_node_calibrate_def platform_adc_read_def statics_shaped_def
        case_prod_beta Let_def split: option.split)
qed






text \<open>
  With \<open>enable_dsp\<close> off, or with a safety status other than \<open>HYBRID_SAFETY_OK\<close>, the DSP
  block is skipped, and flux and coherence stay what they were.
\<close>

lemma process_dsp_skipped:
  "\<not> (enable_dsp (g_config s) \<and> status (safety (g_status s)) = HYBRID_SAFETY_OK)
     \<Longrightarrow> process_dsp size_bits start_us frames s = s"
  by (auto simp add: process_dsp_def)









end
